theory Spec2Isabelle
  imports Complex_Main
begin

section \<open>Python values and errors\<close>

text \<open>
  The exceptions the modelled code can raise.  A function that may raise returns
  \<open>error + 'a\<close>, with \<open>Inl\<close> for the exception.
\<close>

datatype error = FileNotFoundError | ValueError | KeyError | TypeError | ZeroDivisionError

definition rbind :: "error + 'a \<Rightarrow> ('a \<Rightarrow> error + 'b) \<Rightarrow> error + 'b" where
  "rbind r f = (case r of Inl e \<Rightarrow> Inl e | Inr v \<Rightarrow> f v)"

text \<open>Float division \<open>x / y\<close>: raises on a zero divisor.\<close>

definition py_div :: "real \<Rightarrow> real \<Rightarrow> error + real" where
  "py_div x y = (if y = 0 then Inl ZeroDivisionError else Inr (x / y))"

text \<open>
  A score entry of a match dictionary, the way
  \<open>m.get('score', {}).get('fullTime', {})\<close> finds it: the key is absent, it holds the
  JSON null, or it holds a number of goals.
\<close>

datatype jnum = Absent | Null | Num int

text \<open>\<open>d.get(k)\<close>: \<open>None\<close> for an absent key and for a stored null alike.\<close>

fun get_none :: "jnum \<Rightarrow> int option" where
  "get_none Absent = None"
| "get_none Null = None"
| "get_none (Num n) = Some n"

text \<open>\<open>d.get(k, 0)\<close>: the default \<open>0\<close> replaces an absent key only; a stored null is
  returned as \<open>None\<close>.\<close>

fun get_zero :: "jnum \<Rightarrow> int option" where
  "get_zero Absent = Some 0"
| "get_zero Null = None"
| "get_zero (Num n) = Some n"

text \<open>\<open>x > 0\<close> on a value that may be \<open>None\<close>: ordering \<open>None\<close> against a number raises.\<close>

fun py_pos :: "int option \<Rightarrow> error + bool" where
  "py_pos None = Inl TypeError"
| "py_pos (Some n) = Inr (0 < n)"

text \<open>\<open>hg > 0 and ag > 0\<close>: the right operand is evaluated only when the left one is true.\<close>

definition both_pos :: "int option \<Rightarrow> int option \<Rightarrow> error + bool" where
  "both_pos hg ag = rbind (py_pos hg) (\<lambda>b. if b then py_pos ag else Inr False)"

text \<open>\<open>hg + ag > threshold\<close>: adding \<open>None\<close> raises.\<close>

fun sum_over :: "int option \<Rightarrow> int option \<Rightarrow> real \<Rightarrow> error + bool" where
  "sum_over (Some hg) (Some ag) threshold = Inr (threshold < real_of_int (hg + ag))"
| "sum_over _ _ threshold = Inl TypeError"

text \<open>\<open>int(x)\<close> on a float truncates towards zero; \<open>range(n)\<close> is empty for \<open>n \<le> 0\<close>.\<close>

definition py_int :: "real \<Rightarrow> int" where
  "py_int x = (if 0 \<le> x then \<lfloor>x\<rfloor> else \<lceil>x\<rceil>)"

definition py_range :: "int \<Rightarrow> nat list" where
  "py_range n = [0..<nat n]"

text \<open>\<open>np.mean\<close> of a non-empty list of integers.\<close>

definition mean :: "int list \<Rightarrow> real" where
  "mean xs = real_of_int (sum_list xs) / real (length xs)"

section \<open>Match records\<close>

text \<open>
  A historical match as the feature functions read it: the two team names
  (\<open>m.get('homeTeam', {}).get('name')\<close>, \<open>None\<close> when missing) and the two full-time
  score entries.
\<close>

record match_rec =
  m_home :: "string option"
  m_away :: "string option"
  m_ft_home :: jnum
  m_ft_away :: jnum

section \<open>FeatureEngineer\<close>

definition league_avg_goals :: "(string \<times> real) list" where
  "league_avg_goals =
     [(''Premier League'', 2.82), (''La Liga'', 2.63), (''Serie A'', 2.89),
      (''Bundesliga'', 3.11), (''Ligue 1'', 2.71)]"

text \<open>\<open>self.league_avg_goals.get(league, 2.75)\<close>\<close>

definition league_avg :: "string \<Rightarrow> real" where
  "league_avg league = (case map_of league_avg_goals league of None \<Rightarrow> 2.75 | Some v \<Rightarrow> v)"

text \<open>What one iteration of \<open>_goals_avg\<close> appends to \<open>goals\<close>, if anything.\<close>

definition goals_for :: "string \<Rightarrow> match_rec \<Rightarrow> int option" where
  "goals_for team_name m =
     (if m_home m = Some team_name then get_none (m_ft_home m)
      else if m_away m = Some team_name then get_none (m_ft_away m)
      else None)"

definition goals_avg :: "match_rec list \<Rightarrow> string \<Rightarrow> real" where
  "goals_avg matches team_name =
     (let goals = List.map_filter (goals_for team_name) matches
      in if goals \<noteq> [] then mean goals else 0)"

definition goals_against :: "string \<Rightarrow> match_rec \<Rightarrow> int option" where
  "goals_against team_name m =
     (if m_home m = Some team_name then get_none (m_ft_away m)
      else if m_away m = Some team_name then get_none (m_ft_home m)
      else None)"

definition goals_conceded_avg :: "match_rec list \<Rightarrow> string \<Rightarrow> real" where
  "goals_conceded_avg matches team_name =
     (let conceded = List.map_filter (goals_against team_name) matches
      in if conceded \<noteq> [] then mean conceded else 0)"

fun points_form_loop :: "string \<Rightarrow> match_rec list \<Rightarrow> int \<Rightarrow> int" where
  "points_form_loop team_name [] points = points"
| "points_form_loop team_name (m # ms) points =
     (case (get_none (m_ft_home m), get_none (m_ft_away m)) of
        (Some hg, Some ag) \<Rightarrow>
          if m_home m = Some team_name then
            (if hg > ag then points_form_loop team_name ms (points + 3)
             else if hg = ag then points_form_loop team_name ms (points + 1)
             else points_form_loop team_name ms points)
          else if m_away m = Some team_name then
            (if ag > hg then points_form_loop team_name ms (points + 3)
             else if ag = hg then points_form_loop team_name ms (points + 1)
             else points_form_loop team_name ms points)
          else points_form_loop team_name ms points
      | _ \<Rightarrow> points_form_loop team_name ms points)"

definition points_form :: "match_rec list \<Rightarrow> string \<Rightarrow> int" where
  "points_form matches team_name = points_form_loop team_name matches 0"

text \<open>The pair that one iteration of \<open>_goal_difference\<close> appends to
  \<open>scored\<close> and \<open>conceded\<close>.\<close>

definition scored_conceded :: "string \<Rightarrow> match_rec \<Rightarrow> (int \<times> int) option" where
  "scored_conceded team_name m =
     (if m_home m = Some team_name then
        (case (get_none (m_ft_home m), get_none (m_ft_away m)) of
           (Some hg, Some ag) \<Rightarrow> Some (hg, ag) | _ \<Rightarrow> None)
      else if m_away m = Some team_name then
        (case (get_none (m_ft_home m), get_none (m_ft_away m)) of
           (Some hg, Some ag) \<Rightarrow> Some (ag, hg) | _ \<Rightarrow> None)
      else None)"

definition goal_difference :: "match_rec list \<Rightarrow> string \<Rightarrow> int" where
  "goal_difference matches team_name =
     (let sc = List.map_filter (scored_conceded team_name) matches
      in if sc \<noteq> [] then sum_list (map fst sc) - sum_list (map snd sc) else 0)"

definition is_h2h :: "string \<Rightarrow> string \<Rightarrow> match_rec \<Rightarrow> bool" where
  "is_h2h home_team away_team m =
     ((m_home m = Some home_team \<and> m_away m = Some away_team) \<or>
      (m_home m = Some away_team \<and> m_away m = Some home_team))"

definition total_goals :: "match_rec \<Rightarrow> int option" where
  "total_goals m =
     (case (get_none (m_ft_home m), get_none (m_ft_away m)) of
        (Some hg, Some ag) \<Rightarrow> Some (hg + ag) | _ \<Rightarrow> None)"

definition h2h_goals_avg :: "string \<Rightarrow> string \<Rightarrow> match_rec list \<Rightarrow> real" where
  "h2h_goals_avg home_team away_team all_matches =
     (let h2h = filter (is_h2h home_team away_team) all_matches;
          goals = List.map_filter total_goals h2h
      in if goals \<noteq> [] then mean goals else 2.75)"

text \<open>The counting loops of the rate statistics: the count so far is threaded through,
  and an exception leaves the loop.\<close>

fun btts_loop :: "match_rec list \<Rightarrow> nat \<Rightarrow> error + nat" where
  "btts_loop [] count = Inr count"
| "btts_loop (m # ms) count =
     rbind (both_pos (get_zero (m_ft_home m)) (get_zero (m_ft_away m)))
       (\<lambda>b. btts_loop ms (if b then count + 1 else count))"

definition h2h_btts_rate :: "string \<Rightarrow> string \<Rightarrow> match_rec list \<Rightarrow> error + real" where
  "h2h_btts_rate home_team away_team all_matches =
     (let h2h = filter (is_h2h home_team away_team) all_matches
      in rbind (btts_loop h2h 0)
           (\<lambda>btts_count. if h2h \<noteq> [] then py_div (real btts_count) (real (length h2h))
                          else Inr 0.5))"

fun over_loop :: "real \<Rightarrow> match_rec list \<Rightarrow> nat \<Rightarrow> error + nat" where
  "over_loop threshold [] count = Inr count"
| "over_loop threshold (m # ms) count =
     rbind (sum_over (get_zero (m_ft_home m)) (get_zero (m_ft_away m)) threshold)
       (\<lambda>b. over_loop threshold ms (if b then count + 1 else count))"

definition over_rate :: "match_rec list \<Rightarrow> real \<Rightarrow> error + real" where
  "over_rate matches threshold =
     rbind (over_loop threshold matches 0)
       (\<lambda>count. if matches \<noteq> [] then py_div (real count) (real (length matches))
                 else Inr 0)"

definition btts_rate :: "match_rec list \<Rightarrow> string \<Rightarrow> error + real" where
  "btts_rate matches team_name =
     rbind (btts_loop matches 0)
       (\<lambda>count. if matches \<noteq> [] then py_div (real count) (real (length matches))
                 else Inr 0)"

fun win_loop :: "string \<Rightarrow> match_rec list \<Rightarrow> nat \<Rightarrow> nat" where
  "win_loop team_name [] wins = wins"
| "win_loop team_name (m # ms) wins =
     (case (get_none (m_ft_home m), get_none (m_ft_away m)) of
        (Some hg, Some ag) \<Rightarrow>
          if m_home m = Some team_name \<and> hg > ag then win_loop team_name ms (wins + 1)
          else if m_home m \<noteq> Some team_name \<and> ag > hg then win_loop team_name ms (wins + 1)
          else win_loop team_name ms wins
      | _ \<Rightarrow> win_loop team_name ms wins)"

definition win_rate :: "match_rec list \<Rightarrow> string \<Rightarrow> error + real" where
  "win_rate matches team_name =
     (if matches \<noteq> [] then py_div (real (win_loop team_name matches 0)) (real (length matches))
      else Inr 0)"

text \<open>\<open>ag == 0\<close> is an equality test: it is false, and raises nothing, on \<open>None\<close>.\<close>

fun clean_sheet_loop :: "string \<Rightarrow> match_rec list \<Rightarrow> nat \<Rightarrow> nat" where
  "clean_sheet_loop team_name [] cs = cs"
| "clean_sheet_loop team_name (m # ms) cs =
     (let hg = get_zero (m_ft_home m); ag = get_zero (m_ft_away m)
      in if m_home m = Some team_name \<and> ag = Some 0 then clean_sheet_loop team_name ms (cs + 1)
         else if m_home m \<noteq> Some team_name \<and> hg = Some 0
           then clean_sheet_loop team_name ms (cs + 1)
         else clean_sheet_loop team_name ms cs)"

definition clean_sheet_rate :: "match_rec list \<Rightarrow> string \<Rightarrow> error + real" where
  "clean_sheet_rate matches team_name =
     (if matches \<noteq> [] then
        py_div (real (clean_sheet_loop team_name matches 0)) (real (length matches))
      else Inr 0)"

text \<open>
  \<open>scipy.stats.poisson.pmf(k, mu)\<close> for \<open>mu \<ge> 0\<close>: the Poisson point mass
  \<open>e\<^sup>-\<^sup>\<mu> \<mu>\<^sup>k / k!\<close>, over the reals.
\<close>

definition poisson_pmf :: "nat \<Rightarrow> real \<Rightarrow> real" where
  "poisson_pmf k mu = exp (- mu) * mu ^ k / fact k"

definition poisson_inner :: "real \<Rightarrow> real \<Rightarrow> real \<Rightarrow> nat \<Rightarrow> nat \<Rightarrow> real \<Rightarrow> real" where
  "poisson_inner lambda_home lambda_away threshold h a prob_under =
     (if real (h + a) \<le> threshold
      then prob_under + poisson_pmf h lambda_home * poisson_pmf a lambda_away
      else prob_under)"

definition poisson_over_x :: "real \<Rightarrow> real \<Rightarrow> real \<Rightarrow> real" where
  "poisson_over_x lambda_home lambda_away threshold =
     (let prob_under =
        fold (\<lambda>h. fold (poisson_inner lambda_home lambda_away threshold h)
                     (py_range (py_int threshold + 2 - int h)))
          (py_range (py_int threshold + 2)) 0
      in 1 - prob_under)"

text \<open>
  \<open>extract_features\<close>.  The dictionary it fills is kept as the list of its entries in
  insertion order (every key is assigned once), which is also the order of
  \<open>features_dict.values()\<close>.  The integer-valued entries are embedded in the reals.
\<close>

definition extract_features ::
  "string \<Rightarrow> string \<Rightarrow> match_rec list \<Rightarrow> match_rec list \<Rightarrow> string \<Rightarrow> int
     \<Rightarrow> error + (string \<times> real) list" where
  "extract_features home_team away_team home_history away_history league kickoff_date =
     (let home_goals_avg_5 = goals_avg (take 5 home_history) home_team;
          away_goals_avg_5 = goals_avg (take 5 away_history) away_team;
          home_goals_avg_10 = goals_avg (take 10 home_history) home_team;
          away_goals_avg_10 = goals_avg (take 10 away_history) away_team;
          home_points_form_3 = real_of_int (points_form (take 3 home_history) home_team);
          away_points_form_3 = real_of_int (points_form (take 3 away_history) away_team);
          home_points_form_5 = real_of_int (points_form (take 5 home_history) home_team);
          avg = league_avg league
      in
      rbind (py_div home_goals_avg_10 (avg / 2)) (\<lambda>home_attack_strength.
      rbind (py_div away_goals_avg_10 (avg / 2)) (\<lambda>away_attack_strength.
      rbind (py_div (goals_conceded_avg (take 10 home_history) home_team) (avg / 2))
        (\<lambda>home_defense_strength.
      rbind (py_div (goals_conceded_avg (take 10 away_history) away_team) (avg / 2))
        (\<lambda>away_defense_strength.
      let recent_5 = goals_avg (take 5 home_history) home_team;
          previous_5 = goals_avg (take 5 (drop 5 home_history)) home_team;
          home_goals_trend = recent_5 - previous_5;
          recent_5_a = goals_avg (take 5 away_history) away_team;
          previous_5_a = goals_avg (take 5 (drop 5 away_history)) away_team;
          away_goals_trend = recent_5_a - previous_5_a;
          home_conceded_trend =
            goals_conceded_avg (take 5 home_history) home_team
              - goals_conceded_avg (take 5 (drop 5 home_history)) home_team;
          away_conceded_trend =
            goals_conceded_avg (take 5 away_history) away_team
              - goals_conceded_avg (take 5 (drop 5 away_history)) away_team;
          h2h_goals = h2h_goals_avg home_team away_team (home_history @ away_history)
      in
      rbind (h2h_btts_rate home_team away_team (home_history @ away_history))
        (\<lambda>h2h_btts.
      let home_goal_diff = real_of_int (goal_difference (take 10 home_history) home_team);
          away_goal_diff = real_of_int (goal_difference (take 10 away_history) away_team);
          lambda_home = home_attack_strength * away_defense_strength * (avg / 2);
          lambda_away = away_attack_strength * home_defense_strength * (avg / 2);
          expected_total_goals = lambda_home + lambda_away;
          poisson_over25 = poisson_over_x lambda_home lambda_away 2.5
      in
      rbind (win_rate (take 10 home_history) home_team) (\<lambda>home_wins_pct.
      rbind (win_rate (take 10 away_history) away_team) (\<lambda>away_wins_pct.
      rbind (over_rate (take 10 home_history) 2.5) (\<lambda>home_over25_rate.
      rbind (over_rate (take 10 away_history) 2.5) (\<lambda>away_over25_rate.
      rbind (btts_rate (take 10 home_history) home_team) (\<lambda>home_btts_rate.
      rbind (btts_rate (take 10 away_history) away_team) (\<lambda>away_btts_rate.
      rbind (clean_sheet_rate (take 10 home_history) home_team) (\<lambda>home_clean_sheet_rate.
      rbind (clean_sheet_rate (take 10 away_history) away_team) (\<lambda>away_clean_sheet_rate.
      let combined_form = (home_points_form_5 + away_points_form_3) / 2
      in Inr
        [(''home_goals_avg_5'', home_goals_avg_5),
         (''away_goals_avg_5'', away_goals_avg_5),
         (''home_goals_avg_10'', home_goals_avg_10),
         (''away_goals_avg_10'', away_goals_avg_10),
         (''home_points_form_3'', home_points_form_3),
         (''away_points_form_3'', away_points_form_3),
         (''home_points_form_5'', home_points_form_5),
         (''home_attack_strength'', home_attack_strength),
         (''away_attack_strength'', away_attack_strength),
         (''home_defense_strength'', home_defense_strength),
         (''away_defense_strength'', away_defense_strength),
         (''home_goals_trend'', home_goals_trend),
         (''away_goals_trend'', away_goals_trend),
         (''home_conceded_trend'', home_conceded_trend),
         (''away_conceded_trend'', away_conceded_trend),
         (''home_advantage'', 1),
         (''league_avg_goals'', avg),
         (''home_rest_days'', 7),
         (''away_rest_days'', 7),
         (''h2h_goals_avg'', h2h_goals),
         (''h2h_btts_rate'', h2h_btts),
         (''home_goal_diff'', home_goal_diff),
         (''away_goal_diff'', away_goal_diff),
         (''lambda_home'', lambda_home),
         (''lambda_away'', lambda_away),
         (''expected_total_goals'', expected_total_goals),
         (''poisson_over25'', poisson_over25),
         (''home_wins_pct'', home_wins_pct),
         (''away_wins_pct'', away_wins_pct),
         (''home_over25_rate'', home_over25_rate),
         (''away_over25_rate'', away_over25_rate),
         (''home_btts_rate'', home_btts_rate),
         (''away_btts_rate'', away_btts_rate),
         (''home_clean_sheet_rate'', home_clean_sheet_rate),
         (''away_clean_sheet_rate'', away_clean_sheet_rate),
         (''combined_form'', combined_form)]))))))))))))))"

text \<open>\<open>features_dict[key]\<close> and \<open>list(features_dict.values())\<close>.\<close>

definition feature :: "(string \<times> real) list \<Rightarrow> string \<Rightarrow> error + real" where
  "feature features_dict key =
     (case map_of features_dict key of None \<Rightarrow> Inl KeyError | Some v \<Rightarrow> Inr v)"

definition feature_values :: "(string \<times> real) list \<Rightarrow> real list" where
  "feature_values features_dict = map snd features_dict"

section \<open>HybridPredictor\<close>

text \<open>
  The fitted ensemble is opaque: \<open>predict_proba(features)[0, 1]\<close> is a function from the
  feature values to a probability.  The scaler artifact is loaded and never used.
\<close>

type_synonym over25_model_t = "real list \<Rightarrow> real"
type_synonym scaler_t = unit

record predictor =
  over25_model :: "over25_model_t option"
  scaler :: "scaler_t option"

record over25_result =
  probability :: real
  confidence :: string
  lower_bound :: real
  upper_bound :: real

definition predictor_new :: predictor where
  "predictor_new = \<lparr>over25_model = None, scaler = None\<rparr>"

definition predict_over25 :: "predictor \<Rightarrow> real list \<Rightarrow> error + over25_result" where
  "predict_over25 self features =
     (case over25_model self of
        None \<Rightarrow> Inl ValueError
      | Some model \<Rightarrow>
          (let proba = model features;
               lower = max 0 (proba - 0.08);
               upper = min 1 (proba + 0.08);
               confidence =
                 (if proba \<ge> 0.75 then ''High''
                  else if proba \<ge> 0.65 then ''Medium''
                  else ''Low'')
           in Inr \<lparr>probability = proba, confidence = confidence,
                    lower_bound = lower, upper_bound = upper\<rparr>))"

definition predict_btts :: "real \<Rightarrow> real \<Rightarrow> real \<Rightarrow> real" where
  "predict_btts lambda_home lambda_away context_multiplier =
     (let p_home_scores = 1 - poisson_pmf 0 (lambda_home * context_multiplier);
          p_away_scores = 1 - poisson_pmf 0 (lambda_away * context_multiplier);
          p_btts = p_home_scores * p_away_scores
      in if lambda_home < 1 \<or> lambda_away < 1 then p_btts * 0.92 else p_btts)"

text \<open>
  The files \<open>load\<close> looks for under \<open>pretrained/\<close>; \<open>None\<close> when the file does not exist.
\<close>

record artifacts =
  over25_voting_pkl :: "over25_model_t option"
  feature_scaler_pkl :: "scaler_t option"

text \<open>
  What the monitor does that an observer can see: the warning \<open>load\<close> prints, a call of
  \<open>predict_over25\<close> that returned for a fixture, a call of \<open>save_prediction\<close> for a
  fixture, and the error line logged by the per-fixture handler.
\<close>

datatype event = ModelWarning | Scored int | Saved int | ErrorLogged error

text \<open>
  \<open>load\<close>: the two assignments run in order inside one \<open>try\<close>; a missing file ends the
  block, and the handler only prints.  Returns the predictor and what was printed.
\<close>

definition load :: "artifacts \<Rightarrow> predictor \<Rightarrow> predictor \<times> event list" where
  "load files self =
     (case over25_voting_pkl files of
        None \<Rightarrow> (self, [ModelWarning])
      | Some model \<Rightarrow>
          (case feature_scaler_pkl files of
             None \<Rightarrow> (self\<lparr>over25_model := Some model\<rparr>, [ModelWarning])
           | Some sc \<Rightarrow> (self\<lparr>over25_model := Some model, scaler := Some sc\<rparr>, [])))"

section \<open>Database\<close>

text \<open>
  A date string of the feed stands for what \<open>datetime.fromisoformat\<close> makes of it: a point
  in time, or a \<open>ValueError\<close>.
\<close>

datatype date_str = Iso int | Malformed

text \<open>The dictionary \<open>_predict_match\<close> builds and \<open>save_prediction\<close> stores.\<close>

record prediction =
  p_fixture_id :: int
  p_home_team :: string
  p_away_team :: string
  p_league :: string
  p_kickoff_utc :: date_str
  p_over25_prob :: real
  p_over25_confidence :: string
  p_btts_prob :: real
  p_expected_goals :: real
  p_home_form :: real
  p_away_form :: real

text \<open>
  A row of the \<open>predictions\<close> table: the autoincremented key, the time of writing, the
  eleven columns taken from the prediction, and the status column.
\<close>

record prediction_row =
  row_id :: nat
  row_predicted_at :: int
  row_prediction :: prediction
  row_status :: string

record result_row =
  res_id :: nat
  res_fixture_id :: int
  res_home_goals :: int
  res_away_goals :: int
  res_over25_actual :: int
  res_btts_actual :: int
  res_recorded_at :: int

text \<open>The two tables and their \<open>AUTOINCREMENT\<close> counters (the largest key ever given).\<close>

record database =
  predictions :: "prediction_row list"
  results :: "result_row list"
  predictions_seq :: nat
  results_seq :: nat

definition init_db :: "database option \<Rightarrow> database" where
  "init_db existing =
     (case existing of
        None \<Rightarrow> \<lparr>predictions = [], results = [], predictions_seq = 0, results_seq = 0\<rparr>
      | Some db \<Rightarrow> db)"

definition row_fixture_id :: "prediction_row \<Rightarrow> int" where
  "row_fixture_id r = p_fixture_id (row_prediction r)"

text \<open>
  \<open>INSERT OR REPLACE\<close>: the rows that conflict with the new one on the \<open>UNIQUE\<close>
  column \<open>fixture_id\<close> are deleted, then the new row is inserted.  The statement names
  no \<open>status\<close> column, so the new row takes the column default.
\<close>

definition save_prediction :: "int \<Rightarrow> prediction \<Rightarrow> database \<Rightarrow> database" where
  "save_prediction now p db =
     db\<lparr>predictions :=
          filter (\<lambda>r. row_fixture_id r \<noteq> p_fixture_id p) (predictions db) @
          [\<lparr>row_id = predictions_seq db + 1, row_predicted_at = now,
            row_prediction = p, row_status = ''PENDING''\<rparr>],
        predictions_seq := predictions_seq db + 1\<rparr>"

definition prediction_exists :: "int \<Rightarrow> database \<Rightarrow> bool" where
  "prediction_exists fixture_id db =
     (length (filter (\<lambda>r. row_fixture_id r = fixture_id) (predictions db)) > 0)"

definition save_result :: "int \<Rightarrow> int \<Rightarrow> int \<Rightarrow> int \<Rightarrow> database \<Rightarrow> database" where
  "save_result now fixture_id home_goals away_goals db =
     (let over25 = (if home_goals + away_goals > 2 then 1 else 0);
          btts = (if home_goals > 0 \<and> away_goals > 0 then 1 else 0)
      in db\<lparr>results := results db @
               [\<lparr>res_id = results_seq db + 1, res_fixture_id = fixture_id,
                 res_home_goals = home_goals, res_away_goals = away_goals,
                 res_over25_actual = over25, res_btts_actual = btts,
                 res_recorded_at = now\<rparr>],
             results_seq := results_seq db + 1,
             predictions :=
               map (\<lambda>r. if row_fixture_id r = fixture_id then r\<lparr>row_status := ''FINISHED''\<rparr>
                         else r)
                 (predictions db)\<rparr>)"

section \<open>RealTimeMonitor\<close>

text \<open>
  The configuration file, with every key the monitor reads present and of its type.
  \<open>cfg_leagues\<close> lists the entries of \<open>config['leagues']\<close> in order.
\<close>

record league_info =
  lg_id :: int
  lg_name :: string

record config =
  cfg_api_key :: string
  cfg_leagues :: "(string \<times> league_info) list"
  cfg_scan_interval_seconds :: nat
  cfg_look_ahead_days :: nat
  cfg_rate_limit_delay :: nat
  cfg_over25_min_probability :: real
  cfg_btts_min_probability :: real

text \<open>
  A fixture of the feed.  Every entry is read with \<open>match[key]\<close>, except the status
  (\<open>match.get('status')\<close>); \<open>None\<close> is an absent key.
\<close>

record team_ref =
  t_id :: "int option"
  t_name :: "string option"

record fixture =
  fx_id :: "int option"
  fx_status :: "string option"
  fx_utcDate :: "date_str option"
  fx_homeTeam :: "team_ref option"
  fx_awayTeam :: "team_ref option"

text \<open>\<open>d[key]\<close>\<close>

definition item :: "'a option \<Rightarrow> error + 'a" where
  "item v = (case v of None \<Rightarrow> Inl KeyError | Some x \<Rightarrow> Inr x)"

definition fromisoformat :: "date_str \<Rightarrow> error + int" where
  "fromisoformat d = (case d of Malformed \<Rightarrow> Inl ValueError | Iso t \<Rightarrow> Inr t)"

text \<open>
  The outcome of one HTTP request: an exception (connection error, timeout, bad body), or
  a status code with the \<open>matches\<close> entry of the body, if it has one.
\<close>

datatype 'a fetch_outcome = FetchRaised | Status nat "'a list option"

text \<open>
  \<open>_fetch_matches\<close> and \<open>_fetch_team_history\<close> return the same value for the same
  outcome: the list on status 200, the empty list otherwise.
\<close>

definition fetch_list :: "'a fetch_outcome \<Rightarrow> 'a list" where
  "fetch_list outcome =
     (case outcome of
        FetchRaised \<Rightarrow> []
      | Status code body \<Rightarrow>
          if code = 200 then (case body of None \<Rightarrow> [] | Some ms \<Rightarrow> ms) else [])"

text \<open>
  A fixture of the feed together with the outcomes the two history requests have when
  the monitor makes them for this fixture.
\<close>

record feed_item =
  fi_match :: fixture
  fi_home_history :: "match_rec fetch_outcome"
  fi_away_history :: "match_rec fetch_outcome"

record monitor =
  mon_config :: config
  mon_predictor :: predictor
  mon_db :: database
  mon_running :: bool
  mon_trace :: "event list"

text \<open>
  The files the constructor reads: the configuration, the two model artifacts, and the
  database file left by an earlier run, if any.
\<close>

record files =
  config_yaml :: "config option"
  pretrained :: artifacts
  predictions_db :: "database option"

definition monitor_init :: "files \<Rightarrow> error + monitor" where
  "monitor_init fs =
     (case config_yaml fs of
        None \<Rightarrow> Inl FileNotFoundError
      | Some cfg \<Rightarrow>
          (let (pr, printed) = load (pretrained fs) predictor_new
           in Inr \<lparr>mon_config = cfg, mon_predictor = pr,
                    mon_db = init_db (predictions_db fs),
                    mon_running = True, mon_trace = printed\<rparr>))"

text \<open>
  Code that both raises and leaves events behind returns the events with the result;
  \<open>ebind\<close> runs the rest of the code after a step that did not raise.
\<close>

definition lift :: "error + 'a \<Rightarrow> event list \<times> (error + 'a)" where
  "lift r = ([], r)"

definition emit :: "event list \<Rightarrow> event list \<times> (error + unit)" where
  "emit evs = (evs, Inr ())"

definition ebind ::
  "event list \<times> (error + 'a) \<Rightarrow> ('a \<Rightarrow> event list \<times> (error + 'b))
     \<Rightarrow> event list \<times> (error + 'b)" where
  "ebind m f =
     (case m of
        (evs, Inl e) \<Rightarrow> (evs, Inl e)
      | (evs, Inr v) \<Rightarrow> (case f v of (evs1, r) \<Rightarrow> (evs @ evs1, r)))"

text \<open>
  \<open>_predict_match\<close>.  Returns the events of the call and its result: an exception, or
  \<open>None\<close>, or the prediction dictionary.
\<close>

definition predict_match ::
  "monitor \<Rightarrow> feed_item \<Rightarrow> string \<Rightarrow> event list \<times> (error + prediction option)" where
  "predict_match self it league =
     (let match = fi_match it in
      ebind (lift (rbind (item (fx_homeTeam match)) (\<lambda>h. item (t_name h)))) (\<lambda>home_team.
      ebind (lift (rbind (item (fx_awayTeam match)) (\<lambda>a. item (t_name a)))) (\<lambda>away_team.
      ebind (lift (rbind (item (fx_homeTeam match)) (\<lambda>h. item (t_id h)))) (\<lambda>home_id.
      ebind (lift (rbind (item (fx_awayTeam match)) (\<lambda>a. item (t_id a)))) (\<lambda>away_id.
      ebind (lift (item (fx_utcDate match))) (\<lambda>kickoff.
      let home_history = fetch_list (fi_home_history it);
          away_history = fetch_list (fi_away_history it)
      in
      if home_history = [] \<or> away_history = [] then lift (Inr None)
      else
      ebind (lift (rbind (fromisoformat kickoff)
               (extract_features home_team away_team home_history away_history league)))
        (\<lambda>features_dict.
      let feature_vector = feature_values features_dict in
      ebind (lift (predict_over25 (mon_predictor self) feature_vector)) (\<lambda>over25_result.
      ebind (emit (case fx_id match of None \<Rightarrow> [] | Some fixture_id \<Rightarrow> [Scored fixture_id]))
        (\<lambda>u.
      ebind (lift (feature features_dict ''lambda_home'')) (\<lambda>lambda_home.
      ebind (lift (feature features_dict ''lambda_away'')) (\<lambda>lambda_away.
      let btts_prob = predict_btts lambda_home lambda_away 1;
          min_over25 = cfg_over25_min_probability (mon_config self);
          min_btts = cfg_btts_min_probability (mon_config self)
      in
      if probability over25_result < min_over25 then lift (Inr None)
      else
      ebind (lift (item (fx_id match))) (\<lambda>fixture_id.
      ebind (lift (feature features_dict ''expected_total_goals'')) (\<lambda>expected_goals.
      ebind (lift (feature features_dict ''home_points_form_5'')) (\<lambda>home_form.
      ebind (lift (feature features_dict ''away_points_form_3'')) (\<lambda>away_form.
      lift (Inr (Some
        \<lparr>p_fixture_id = fixture_id, p_home_team = home_team,
         p_away_team = away_team, p_league = league,
         p_kickoff_utc = kickoff,
         p_over25_prob = probability over25_result,
         p_over25_confidence = confidence over25_result,
         p_btts_prob = btts_prob, p_expected_goals = expected_goals,
         p_home_form = home_form, p_away_form = away_form\<rparr>)))))))))))))))))"

text \<open>\<open>self.db.save_prediction(prediction)\<close> on the monitor.\<close>

definition persist :: "int \<Rightarrow> prediction \<Rightarrow> monitor \<Rightarrow> monitor" where
  "persist now p self =
     self\<lparr>mon_db := save_prediction now p (mon_db self),
          mon_trace := mon_trace self @ [Saved (p_fixture_id p)]\<rparr>"

text \<open>
  The body of the \<open>try\<close> block of one iteration of \<open>for match in matches\<close>: the monitor
  after it, and whether it ended normally (also by \<open>continue\<close>) or by an exception.
  The two sleeps change nothing and are left out.
\<close>

definition try_predict :: "int \<Rightarrow> string \<Rightarrow> feed_item \<Rightarrow> monitor \<Rightarrow> monitor \<times> (error + unit)" where
  "try_predict now_utc comp_name it self =
     (let r = predict_match self it comp_name;
          self1 = self\<lparr>mon_trace := mon_trace self @ fst r\<rparr>
      in case snd r of
           Inl e \<Rightarrow> (self1, Inl e)
         | Inr None \<Rightarrow> (self1, Inr ())
         | Inr (Some p) \<Rightarrow> (persist now_utc p self1, Inr ()))"

definition try_match :: "int \<Rightarrow> string \<Rightarrow> feed_item \<Rightarrow> monitor \<Rightarrow> monitor \<times> (error + unit)" where
  "try_match now_utc comp_name it self =
     (case rbind (item (fx_utcDate (fi_match it))) fromisoformat of
        Inl e \<Rightarrow> (self, Inl e)
      | Inr kickoff \<Rightarrow>
          if kickoff \<le> now_utc then (self, Inr ())
          else
            (case item (fx_id (fi_match it)) of
               Inl e \<Rightarrow> (self, Inl e)
             | Inr fixture_id \<Rightarrow>
                 if prediction_exists fixture_id (mon_db self) then (self, Inr ())
                 else try_predict now_utc comp_name it self))"

text \<open>One iteration: the status test, the \<open>try\<close> block, and its handler, which logs
  the exception and goes on.\<close>

definition process_match :: "int \<Rightarrow> string \<Rightarrow> feed_item \<Rightarrow> monitor \<Rightarrow> monitor" where
  "process_match now_utc comp_name it self =
     (if fx_status (fi_match it) \<noteq> Some ''SCHEDULED'' \<and> fx_status (fi_match it) \<noteq> Some ''TIMED''
      then self
      else
        (case try_match now_utc comp_name it self of
           (self1, Inl e) \<Rightarrow> self1\<lparr>mon_trace := mon_trace self1 @ [ErrorLogged e]\<rparr>
         | (self1, Inr u) \<Rightarrow> self1))"

fun scan_matches :: "int \<Rightarrow> string \<Rightarrow> feed_item list \<Rightarrow> monitor \<Rightarrow> monitor" where
  "scan_matches now_utc comp_name [] self = self"
| "scan_matches now_utc comp_name (it # its) self =
     scan_matches now_utc comp_name its (process_match now_utc comp_name it self)"

text \<open>
  One scan cycle as the world presents it: the clock, and for each competition id the
  outcome of the fixtures request.
\<close>

record cycle =
  cy_now_utc :: int
  cy_matches :: "int \<Rightarrow> feed_item fetch_outcome"

fun scan_leagues :: "cycle \<Rightarrow> (string \<times> league_info) list \<Rightarrow> monitor \<Rightarrow> monitor" where
  "scan_leagues c [] self = self"
| "scan_leagues c ((code, info) # rest) self =
     scan_leagues c rest
       (scan_matches (cy_now_utc c) (lg_name info) (fetch_list (cy_matches c (lg_id info))) self)"

definition scan_upcoming_matches :: "cycle \<Rightarrow> monitor \<Rightarrow> monitor" where
  "scan_upcoming_matches c self = scan_leagues c (cfg_leagues (mon_config self)) self"

text \<open>
  \<open>monitor_loop\<close> runs while \<open>self.running\<close>; it is followed along a finite prefix of
  what happens to it: a scan cycle, or the interrupt that ends it.  With the
  configuration and the feed well-formed as above, a scan cycle raises nothing outside
  the per-fixture handler, so the loop's handler for other exceptions has no case here.
\<close>

datatype loop_input = Cycle cycle | KeyboardInterrupt

fun monitor_loop :: "loop_input list \<Rightarrow> monitor \<Rightarrow> monitor" where
  "monitor_loop [] self = self"
| "monitor_loop (x # xs) self =
     (if \<not> mon_running self then self
      else case x of
             Cycle c \<Rightarrow> monitor_loop xs (scan_upcoming_matches c self)
           | KeyboardInterrupt \<Rightarrow> monitor_loop xs (self\<lparr>mon_running := False\<rparr>))"

definition main :: "files \<Rightarrow> loop_input list \<Rightarrow> error + monitor" where
  "main fs inputs = rbind (monitor_init fs) (\<lambda>monitor. Inr (monitor_loop inputs monitor))"

text \<open>
  The fixtures of one scan cycle in the order the two nested loops of
  \<open>scan_upcoming_matches\<close> visit them, each with the name of its competition, and the
  body of the inner loop run along such a list.
\<close>

fun scan_all :: "int \<Rightarrow> (string \<times> feed_item) list \<Rightarrow> monitor \<Rightarrow> monitor" where
  "scan_all now_utc [] self = self"
| "scan_all now_utc ((comp_name, it) # rest) self =
     scan_all now_utc rest (process_match now_utc comp_name it self)"

fun cycle_fixtures :: "cycle \<Rightarrow> (string \<times> league_info) list \<Rightarrow> (string \<times> feed_item) list" where
  "cycle_fixtures c [] = []"
| "cycle_fixtures c ((code, info) # rest) =
     map (Pair (lg_name info)) (fetch_list (cy_matches c (lg_id info))) @ cycle_fixtures c rest"

text \<open>
  What the reads of \<open>_predict_match\<close> and the parse of the date give when none of them
  raises: the two team names and the kickoff time.
\<close>

definition fixture_reads :: "fixture \<Rightarrow> (string \<times> string \<times> int) option" where
  "fixture_reads match =
     (case (fx_homeTeam match, fx_awayTeam match, fx_utcDate match) of
        (Some h, Some a, Some (Iso kickoff)) \<Rightarrow>
          (case (t_name h, t_name a, t_id h, t_id a) of
             (Some home_team, Some away_team, Some home_id, Some away_id) \<Rightarrow>
               Some (home_team, away_team, kickoff)
           | _ \<Rightarrow> None)
      | _ \<Rightarrow> None)"

text \<open>
  The iteration for a fixture gets as far as the call of \<open>predict_over25\<close>: the status
  is a scheduled one, the identifier is there and has no row in the ledger \<open>db\<close>, the
  kickoff lies after \<open>now_utc\<close>, both histories came back non-empty, and feature
  extraction returned \<open>features_dict\<close>.
\<close>

definition reaches_scoring ::
  "int \<Rightarrow> string \<Rightarrow> feed_item \<Rightarrow> database \<Rightarrow> int \<Rightarrow> (string \<times> real) list \<Rightarrow> bool" where
  "reaches_scoring now_utc league it db fixture_id features_dict =
     ((fx_status (fi_match it) = Some ''SCHEDULED'' \<or> fx_status (fi_match it) = Some ''TIMED'') \<and>
      fx_id (fi_match it) = Some fixture_id \<and>
      \<not> prediction_exists fixture_id db \<and>
      fetch_list (fi_home_history it) \<noteq> [] \<and>
      fetch_list (fi_away_history it) \<noteq> [] \<and>
      (case fixture_reads (fi_match it) of
         None \<Rightarrow> False
       | Some (home_team, away_team, kickoff) \<Rightarrow>
           now_utc < kickoff \<and>
           extract_features home_team away_team (fetch_list (fi_home_history it))
             (fetch_list (fi_away_history it)) league kickoff = Inr features_dict))"

text \<open>The fixture ids of the saves and of the scorings in a trace, in order.\<close>

fun saved_ids :: "event list \<Rightarrow> int list" where
  "saved_ids [] = []"
| "saved_ids (Saved fixture_id # evs) = fixture_id # saved_ids evs"
| "saved_ids (ev # evs) = saved_ids evs"

fun scored_ids :: "event list \<Rightarrow> int list" where
  "scored_ids [] = []"
| "scored_ids (Scored fixture_id # evs) = fixture_id # scored_ids evs"
| "scored_ids (ev # evs) = scored_ids evs"

text \<open>The fixture identifiers that have a row in the \<open>predictions\<close> table.\<close>

definition ledger_ids :: "database \<Rightarrow> int set" where
  "ledger_ids db = row_fixture_id ` set (predictions db)"

text \<open>
  The deduplication invariant of a run that started from the ledger \<open>db0\<close>: the saves
  made so far are for pairwise different fixtures, each of them now in the ledger, none
  of them in the ledger at the start, and the ledger has lost no fixture.
\<close>

definition dedup_inv :: "database \<Rightarrow> monitor \<Rightarrow> bool" where
  "dedup_inv db0 self =
     (distinct (saved_ids (mon_trace self)) \<and>
      set (saved_ids (mon_trace self)) \<subseteq> ledger_ids (mon_db self) \<and>
      set (saved_ids (mon_trace self)) \<inter> ledger_ids db0 = {} \<and>
      ledger_ids db0 \<subseteq> ledger_ids (mon_db self))"

text \<open>The monitor with another value under \<open>thresholds.btts_min_probability\<close>.\<close>

definition set_btts_min :: "real \<Rightarrow> monitor \<Rightarrow> monitor" where
  "set_btts_min b self = self\<lparr>mon_config := (mon_config self)\<lparr>cfg_btts_min_probability := b\<rparr>\<rparr>"

section \<open>Example inputs\<close>

text \<open>Concrete inputs at which the properties below are instantiated.\<close>

definition ex_prediction :: prediction where
  "ex_prediction =
     \<lparr>p_fixture_id = 7, p_home_team = ''Arsenal'', p_away_team = ''Chelsea'',
      p_league = ''Premier League'', p_kickoff_utc = Iso 200, p_over25_prob = 0.7,
      p_over25_confidence = ''Medium'', p_btts_prob = 0.5, p_expected_goals = 3,
      p_home_form = 9, p_away_form = 3\<rparr>"

definition ex_config :: config where
  "ex_config =
     \<lparr>cfg_api_key = ''key'',
      cfg_leagues = [(''PL'', \<lparr>lg_id = 2021, lg_name = ''Premier League''\<rparr>)],
      cfg_scan_interval_seconds = 3600, cfg_look_ahead_days = 7, cfg_rate_limit_delay = 6,
      cfg_over25_min_probability = 0.65, cfg_btts_min_probability = 0.6\<rparr>"

definition ex_home_history :: "match_rec list" where
  "ex_home_history =
     [\<lparr>m_home = Some ''Arsenal'', m_away = Some ''Everton'', m_ft_home = Num 2, m_ft_away = Num 1\<rparr>]"

definition ex_away_history :: "match_rec list" where
  "ex_away_history =
     [\<lparr>m_home = Some ''Leeds'', m_away = Some ''Chelsea'', m_ft_home = Num 1, m_ft_away = Num 1\<rparr>]"

definition ex_fixture :: fixture where
  "ex_fixture =
     \<lparr>fx_id = Some 1, fx_status = Some ''SCHEDULED'', fx_utcDate = Some (Iso 200),
      fx_homeTeam = Some \<lparr>t_id = Some 57, t_name = Some ''Arsenal''\<rparr>,
      fx_awayTeam = Some \<lparr>t_id = Some 61, t_name = Some ''Chelsea''\<rparr>\<rparr>"

definition ex_item :: feed_item where
  "ex_item =
     \<lparr>fi_match = ex_fixture, fi_home_history = Status 200 (Some ex_home_history),
      fi_away_history = Status 200 (Some ex_away_history)\<rparr>"

text \<open>The prediction made for \<open>ex_item\<close> by a model that answers 0.7.\<close>

definition ex_accepted :: prediction where
  "ex_accepted =
     \<lparr>p_fixture_id = 1, p_home_team = ''Arsenal'', p_away_team = ''Chelsea'',
      p_league = ''Premier League'', p_kickoff_utc = Iso 200, p_over25_prob = 0.7,
      p_over25_confidence = ''Medium'', p_btts_prob = predict_btts (200 / 141) (100 / 141) 1,
      p_expected_goals = 100 / 47, p_home_form = 3, p_away_form = 1\<rparr>"

text \<open>A fixture of the feed that lacks its home team entry.\<close>

definition ex_bad_item :: feed_item where
  "ex_bad_item = ex_item\<lparr>fi_match := ex_fixture\<lparr>fx_id := Some 2, fx_homeTeam := None\<rparr>\<rparr>"

text \<open>A fixture of the feed whose home history request fails.\<close>

definition ex_unfetched_item :: feed_item where
  "ex_unfetched_item =
     ex_item\<lparr>fi_match := ex_fixture\<lparr>fx_id := Some 3\<rparr>, fi_home_history := FetchRaised\<rparr>"

definition ex_cycle :: cycle where
  "ex_cycle = \<lparr>cy_now_utc = 100, cy_matches = (\<lambda>comp_id. Status 200 (Some [ex_item]))\<rparr>"

text \<open>The feature vector of \<open>ex_item\<close>.\<close>

definition ex_features :: "(string \<times> real) list" where
  "ex_features =
     [(''home_goals_avg_5'', 2), (''away_goals_avg_5'', 1),
      (''home_goals_avg_10'', 2), (''away_goals_avg_10'', 1),
      (''home_points_form_3'', 3), (''away_points_form_3'', 1),
      (''home_points_form_5'', 3), (''home_attack_strength'', 200 / 141),
      (''away_attack_strength'', 100 / 141),
      (''home_defense_strength'', 100 / 141),
      (''away_defense_strength'', 100 / 141), (''home_goals_trend'', 2),
      (''away_goals_trend'', 1), (''home_conceded_trend'', 1),
      (''away_conceded_trend'', 1), (''home_advantage'', 1),
      (''league_avg_goals'', 141 / 50), (''home_rest_days'', 7),
      (''away_rest_days'', 7), (''h2h_goals_avg'', 11 / 4),
      (''h2h_btts_rate'', 1 / 2), (''home_goal_diff'', 1),
      (''away_goal_diff'', 0), (''lambda_home'', 200 / 141),
      (''lambda_away'', 100 / 141), (''expected_total_goals'', 100 / 47),
      (''poisson_over25'', poisson_over_x (200 / 141) (100 / 141) (5 / 2)),
      (''home_wins_pct'', 1), (''away_wins_pct'', 0),
      (''home_over25_rate'', 1), (''away_over25_rate'', 0),
      (''home_btts_rate'', 1), (''away_btts_rate'', 1),
      (''home_clean_sheet_rate'', 0), (''away_clean_sheet_rate'', 0),
      (''combined_form'', 2)]"

text \<open>A cycle in which every competition's request returns the given fixtures.\<close>

definition ex_cycle_of :: "feed_item list \<Rightarrow> cycle" where
  "ex_cycle_of items = \<lparr>cy_now_utc = 100, cy_matches = (\<lambda>comp_id. Status 200 (Some items))\<rparr>"

text \<open>A start with the configuration present and no model artifact.\<close>

definition ex_files_no_model :: files where
  "ex_files_no_model =
     \<lparr>config_yaml = Some ex_config,
      pretrained = \<lparr>over25_voting_pkl = None, feature_scaler_pkl = None\<rparr>,
      predictions_db = None\<rparr>"

text \<open>A running monitor whose model gives every fixture the probability \<open>p\<close>.\<close>

definition ex_monitor :: "real \<Rightarrow> monitor" where
  "ex_monitor p =
     \<lparr>mon_config = ex_config,
      mon_predictor = \<lparr>over25_model = Some (\<lambda>features. p), scaler = Some ()\<rparr>,
      mon_db = init_db None, mon_running = True, mon_trace = []\<rparr>"

section \<open>Properties of the feature functions\<close>

lemma league_avg_pos: "0 < league_avg league"
  by (simp add: league_avg_def league_avg_goals_def)

lemma py_int_5_2: "py_int (5 / 2) = 2"
  by (simp add: py_int_def)

lemma py_range_upto_4:
  "py_range 4 = [0, 1, 2, 3]" "py_range 3 = [0, 1, 2]" "py_range 2 = [0, 1]"
  "py_range 1 = [0]" "py_range 0 = []"
  by (simp_all add: py_range_def upt_rec)

text \<open>The six terms the two loops of \<open>_poisson_over_x\<close> add up at threshold 2.5.\<close>

lemma poisson_over_x_terms:
  "poisson_over_x lh la (5 / 2) =
     1 - (poisson_pmf 0 lh * poisson_pmf 0 la + poisson_pmf 0 lh * poisson_pmf 1 la
          + poisson_pmf 0 lh * poisson_pmf 2 la + poisson_pmf 1 lh * poisson_pmf 0 la
          + poisson_pmf 1 lh * poisson_pmf 1 la + poisson_pmf 2 lh * poisson_pmf 0 la)"
  by (simp add: poisson_over_x_def py_int_5_2 py_range_upto_4 poisson_inner_def)

lemma pairs_sum_le_2:
  "{(h, a). h + a \<le> (2::nat)} = {(0, 0), (0, 1), (0, 2), (1, 0), (1, 1), (2, 0)}"
  by (auto simp: numeral_2_eq_2 le_Suc_eq)

text \<open>
  Claim C4.  For all rates \<open>\<lambda>\<^sub>h\<close>, \<open>\<lambda>\<^sub>a \<ge> 0\<close>, the Poisson over-threshold computation
  at threshold 2.5 returns exactly one minus the sum, over all pairs \<open>(h, a)\<close> of
  non-negative integers with \<open>h + a \<le> 2\<close>, of the product of the two Poisson point masses
  \<open>e\<^sup>-\<^sup>\<lambda> \<lambda>\<^sup>k / k!\<close>.  (Arithmetic is over the reals.)
\<close>

theorem poisson_over_x_exact:
  assumes "0 \<le> lambda_home" and "0 \<le> lambda_away"
  shows "poisson_over_x lambda_home lambda_away 2.5 =
           1 - (\<Sum>(h, a) \<in> {(h, a). h + a \<le> (2::nat)}.
                  (exp (- lambda_home) * lambda_home ^ h / fact h) *
                  (exp (- lambda_away) * lambda_away ^ a / fact a))"
  by (simp add: poisson_over_x_terms pairs_sum_le_2 poisson_pmf_def)

theorem poisson_over_x_exact_witness:
  "(0::real) \<le> 1.2 \<and> (0::real) \<le> 1 \<and>
   poisson_over_x 1.2 1 2.5 =
     1 - (\<Sum>(h, a) \<in> {(h, a). h + a \<le> (2::nat)}.
            (exp (- 1.2) * 1.2 ^ h / fact h) * (exp (- 1) * 1 ^ a / fact a))"
  using poisson_over_x_exact [of "1.2" 1] by simp

text \<open>
  Claim C6.  For empty home and away histories, and any team names, league and kickoff
  time, feature extraction returns (it raises nothing, in particular no division by zero)
  a vector of exactly 36 fields with distinct names, each at its default: 0 for the
  averages, points forms, strengths, trends, goal differences, Poisson parameters and
  rates, 0.5 for the head-to-head both-teams-score rate, 2.75 for the head-to-head goal
  average, the league average for \<open>league_avg_goals\<close>, and the fixed constants 1 for
  \<open>home_advantage\<close> and 7 for the two rest-day fields.
\<close>

theorem extract_features_empty_history:
  "extract_features home_team away_team [] [] league kickoff_date =
     Inr [(''home_goals_avg_5'', 0), (''away_goals_avg_5'', 0),
          (''home_goals_avg_10'', 0), (''away_goals_avg_10'', 0),
          (''home_points_form_3'', 0), (''away_points_form_3'', 0),
          (''home_points_form_5'', 0), (''home_attack_strength'', 0),
          (''away_attack_strength'', 0), (''home_defense_strength'', 0),
          (''away_defense_strength'', 0), (''home_goals_trend'', 0),
          (''away_goals_trend'', 0), (''home_conceded_trend'', 0),
          (''away_conceded_trend'', 0), (''home_advantage'', 1),
          (''league_avg_goals'', league_avg league), (''home_rest_days'', 7),
          (''away_rest_days'', 7), (''h2h_goals_avg'', 2.75),
          (''h2h_btts_rate'', 0.5), (''home_goal_diff'', 0),
          (''away_goal_diff'', 0), (''lambda_home'', 0),
          (''lambda_away'', 0), (''expected_total_goals'', 0),
          (''poisson_over25'', 0), (''home_wins_pct'', 0),
          (''away_wins_pct'', 0), (''home_over25_rate'', 0),
          (''away_over25_rate'', 0), (''home_btts_rate'', 0),
          (''away_btts_rate'', 0), (''home_clean_sheet_rate'', 0),
          (''away_clean_sheet_rate'', 0), (''combined_form'', 0)]
   \<and> (case extract_features home_team away_team [] [] league kickoff_date of
         Inl e \<Rightarrow> False
       | Inr features \<Rightarrow> length features = 36 \<and> distinct (map fst features))"
  using league_avg_pos [of league]
  by (simp add: extract_features_def Let_def rbind_def py_div_def goals_avg_def
      goals_conceded_avg_def points_form_def goal_difference_def h2h_goals_avg_def
      h2h_btts_rate_def win_rate_def over_rate_def btts_rate_def clean_sheet_rate_def
      List.map_filter_simps poisson_over_x_terms poisson_pmf_def)

text \<open>
  Claim C2 fails on the rate statistics.  A match whose score entries are absent is
  counted as a clean sheet and stays in every rate's denominator: a window holding only
  such a match has clean-sheet rate 1, and a window of one 3-0 win and one scoreless
  record has over-2.5 rate and win rate 1/2, where the goal average of the same window
  leaves the scoreless record out.  When the score entries hold null, the over-threshold
  rate raises a type error.
\<close>

theorem rates_count_missing_scores:
  "clean_sheet_rate
     [\<lparr>m_home = Some ''A'', m_away = Some ''B'', m_ft_home = Absent, m_ft_away = Absent\<rparr>]
     ''A'' = Inr 1
   \<and> over_rate
     [\<lparr>m_home = Some ''A'', m_away = Some ''B'', m_ft_home = Num 3, m_ft_away = Num 0\<rparr>,
      \<lparr>m_home = Some ''A'', m_away = Some ''B'', m_ft_home = Absent, m_ft_away = Absent\<rparr>]
     2.5 = Inr (1 / 2)
   \<and> win_rate
     [\<lparr>m_home = Some ''A'', m_away = Some ''B'', m_ft_home = Num 3, m_ft_away = Num 0\<rparr>,
      \<lparr>m_home = Some ''A'', m_away = Some ''B'', m_ft_home = Null, m_ft_away = Null\<rparr>]
     ''A'' = Inr (1 / 2)
   \<and> goals_avg
     [\<lparr>m_home = Some ''A'', m_away = Some ''B'', m_ft_home = Num 3, m_ft_away = Num 0\<rparr>,
      \<lparr>m_home = Some ''A'', m_away = Some ''B'', m_ft_home = Null, m_ft_away = Null\<rparr>]
     ''A'' = 3
   \<and> over_rate
     [\<lparr>m_home = Some ''A'', m_away = Some ''B'', m_ft_home = Null, m_ft_away = Null\<rparr>]
     2.5 = Inl TypeError"
  by (simp add: clean_sheet_rate_def over_rate_def win_rate_def py_div_def rbind_def
      goals_avg_def goals_for_def mean_def List.map_filter_simps)

section \<open>Properties of the scoring engine\<close>

lemma poisson_pmf_0: "poisson_pmf 0 mu = exp (- mu)"
  by (simp add: poisson_pmf_def)

lemma dampen: "0 \<le> (p::real) \<Longrightarrow> 0 \<le> p * 0.92 \<and> p * 0.92 \<le> p"
  by simp

lemma dampen_mono: "(p::real) \<le> q \<Longrightarrow> p * 0.92 \<le> q * 0.92"
  by simp

lemma predict_btts_damped:
  "lh < 1 \<or> la < 1 \<Longrightarrow> predict_btts lh la 1 = (1 - exp (- lh)) * (1 - exp (- la)) * 0.92"
  by (simp add: predict_btts_def poisson_pmf_0 Let_def)

lemma predict_btts_plain:
  "\<not> (lh < 1 \<or> la < 1) \<Longrightarrow> predict_btts lh la 1 = (1 - exp (- lh)) * (1 - exp (- la))"
  by (simp add: predict_btts_def poisson_pmf_0 Let_def)

lemma predict_btts_range:
  assumes "0 \<le> lh" "0 \<le> la"
  shows "0 \<le> predict_btts lh la 1 \<and> predict_btts lh la 1 \<le> 1"
proof -
  let ?f = "\<lambda>x::real. 1 - exp (- x)"
  have h: "0 \<le> ?f lh" "?f lh \<le> 1" and a: "0 \<le> ?f la" "?f la \<le> 1"
    using assms by simp_all
  have p0: "0 \<le> ?f lh * ?f la" using h a by (intro mult_nonneg_nonneg)
  have p1: "?f lh * ?f la \<le> 1" using h a by (intro mult_le_one)
  have d: "0 \<le> ?f lh * ?f la * 0.92 \<and> ?f lh * ?f la * 0.92 \<le> ?f lh * ?f la"
    by (rule dampen [OF p0])
  show ?thesis
  proof (cases "lh < 1 \<or> la < 1")
    case True
    show ?thesis unfolding predict_btts_damped [OF True] using d p1 by linarith
  next
    case False
    show ?thesis unfolding predict_btts_plain [OF False] using p0 p1 by blast
  qed
qed

text \<open>Raising the home rate never lowers the result, whichever side of 1 the rates lie.\<close>

lemma predict_btts_mono_home:
  assumes "0 \<le> lh" "lh \<le> lh'" "0 \<le> la"
  shows "predict_btts lh la 1 \<le> predict_btts lh' la 1"
proof -
  let ?f = "\<lambda>x::real. 1 - exp (- x)"
  have h: "0 \<le> ?f lh" "?f lh \<le> ?f lh'" and a: "0 \<le> ?f la"
    using assms by simp_all
  have m: "?f lh * ?f la \<le> ?f lh' * ?f la"
    using h a by (intro mult_right_mono)
  have p0: "0 \<le> ?f lh * ?f la" using h a by (intro mult_nonneg_nonneg)
  have d: "0 \<le> ?f lh * ?f la * 0.92 \<and> ?f lh * ?f la * 0.92 \<le> ?f lh * ?f la"
    by (rule dampen [OF p0])
  have m': "?f lh * ?f la * 0.92 \<le> ?f lh' * ?f la * 0.92"
    by (rule dampen_mono [OF m])
  show ?thesis
  proof (cases "lh' < 1 \<or> la < 1")
    case True
    then have L: "lh < 1 \<or> la < 1" using assms by linarith
    show ?thesis unfolding predict_btts_damped [OF True] predict_btts_damped [OF L]
      by (rule m')
  next
    case False
    show ?thesis
    proof (cases "lh < 1 \<or> la < 1")
      case True
      show ?thesis unfolding predict_btts_plain [OF False] predict_btts_damped [OF True]
        using d m by linarith
    next
      case F: False
      show ?thesis unfolding predict_btts_plain [OF False] predict_btts_plain [OF F]
        by (rule m)
    qed
  qed
qed

lemma predict_btts_commute: "predict_btts lh la m = predict_btts la lh m"
  by (auto simp add: predict_btts_def Let_def mult.commute)

text \<open>
  Claim C5.  For all rates \<open>\<lambda>\<^sub>h\<close>, \<open>\<lambda>\<^sub>a \<ge> 0\<close> and context multiplier 1, the
  both-teams-score probability lies in \<open>[0, 1]\<close> and does not decrease when either rate
  is raised, also when the raise crosses 1, where the 0.92 dampening stops applying.
  (Arithmetic is over the reals.)
\<close>

theorem predict_btts_range_monotone:
  assumes "0 \<le> lambda_home" and "0 \<le> lambda_away"
    and "lambda_home \<le> lambda_home'" and "lambda_away \<le> lambda_away'"
  shows "0 \<le> predict_btts lambda_home lambda_away 1
       \<and> predict_btts lambda_home lambda_away 1 \<le> 1
       \<and> predict_btts lambda_home lambda_away 1 \<le> predict_btts lambda_home' lambda_away 1
       \<and> predict_btts lambda_home lambda_away 1 \<le> predict_btts lambda_home lambda_away' 1"
proof -
  have "predict_btts lambda_away lambda_home 1 \<le> predict_btts lambda_away' lambda_home 1"
    using assms by (intro predict_btts_mono_home)
  then have "predict_btts lambda_home lambda_away 1 \<le> predict_btts lambda_home lambda_away' 1"
    by (simp only: predict_btts_commute [of lambda_home])
  then show ?thesis
    using predict_btts_range [of lambda_home lambda_away]
      predict_btts_mono_home [of lambda_home lambda_home' lambda_away] assms
    by blast
qed

theorem predict_btts_range_monotone_witness:
  "(0::real) \<le> 1 / 2 \<and> (0::real) \<le> 1 \<and> (1 / 2 :: real) \<le> 1 \<and> (1::real) \<le> 2
   \<and> 0 \<le> predict_btts (1 / 2) 1 1 \<and> predict_btts (1 / 2) 1 1 \<le> 1
   \<and> predict_btts (1 / 2) 1 1 \<le> predict_btts 1 1 1
   \<and> predict_btts (1 / 2) 1 1 \<le> predict_btts (1 / 2) 2 1"
  using predict_btts_range_monotone [of "1 / 2" 1 1 2] by simp

section \<open>Properties of the ledger\<close>

lemma filter_after_save:
  "filter (\<lambda>r. row_fixture_id r = p_fixture_id q) (predictions (save_prediction t q db)) =
     [\<lparr>row_id = predictions_seq db + 1, row_predicted_at = t, row_prediction = q,
       row_status = ''PENDING''\<rparr>]"
  by (simp add: save_prediction_def row_fixture_id_def filter_empty_conv)

lemma seq_after_save: "predictions_seq (save_prediction t p db) = predictions_seq db + 1"
  by (simp add: save_prediction_def)

text \<open>
  Claim C3.  For any two predictions \<open>p\<close> and \<open>q\<close> with the same fixture identifier and
  any ledger, saving \<open>p\<close> and then \<open>q\<close> leaves exactly one \<open>predictions\<close> row for that
  identifier, and the row holds \<open>q\<close>.
\<close>

theorem save_prediction_overwrites:
  assumes "p_fixture_id p = p_fixture_id q"
  shows "filter (\<lambda>r. row_fixture_id r = p_fixture_id q)
           (predictions (save_prediction t2 q (save_prediction t1 p db))) =
         [\<lparr>row_id = predictions_seq db + 2, row_predicted_at = t2, row_prediction = q,
           row_status = ''PENDING''\<rparr>]"
  by (simp add: filter_after_save seq_after_save)

theorem save_prediction_overwrites_witness:
  "p_fixture_id ex_prediction = p_fixture_id (ex_prediction\<lparr>p_over25_prob := 0.8\<rparr>) \<and>
   filter (\<lambda>r. row_fixture_id r = 7)
     (predictions (save_prediction 20 (ex_prediction\<lparr>p_over25_prob := 0.8\<rparr>)
        (save_prediction 10 ex_prediction (init_db None)))) =
     [\<lparr>row_id = 2, row_predicted_at = 20,
       row_prediction = ex_prediction\<lparr>p_over25_prob := 0.8\<rparr>, row_status = ''PENDING''\<rparr>]"
  using save_prediction_overwrites
    [of ex_prediction "ex_prediction\<lparr>p_over25_prob := 0.8\<rparr>" 20 10 "init_db None"]
  by (simp add: ex_prediction_def init_db_def)

lemma finish_rows:
  "map row_status (filter (\<lambda>r. row_fixture_id r = fid)
      (map (\<lambda>r. if row_fixture_id r = fid then r\<lparr>row_status := ''FINISHED''\<rparr> else r) rs)) =
   replicate (length (filter (\<lambda>r. row_fixture_id r = fid) rs)) ''FINISHED''"
  by (induction rs) (auto simp: row_fixture_id_def)

lemma finished_after_result:
  "map row_status (filter (\<lambda>r. row_fixture_id r = fid)
      (predictions (save_result t fid hg ag db))) =
   replicate (length (filter (\<lambda>r. row_fixture_id r = fid) (predictions db))) ''FINISHED''"
  by (simp add: save_result_def Let_def finish_rows)

text \<open>
  Claim C10.  When the ledger holds a prediction for a fixture identifier and
  \<open>save_result\<close> has moved it to status \<open>FINISHED\<close>, saving a prediction for the same
  identifier again leaves the identifier's only row with status \<open>PENDING\<close>.
\<close>

theorem reinsert_resets_status:
  assumes "prediction_exists (p_fixture_id q) db"
  shows "set (map row_status (filter (\<lambda>r. row_fixture_id r = p_fixture_id q)
                (predictions (save_result t (p_fixture_id q) hg ag db)))) = {''FINISHED''}
       \<and> map row_status (filter (\<lambda>r. row_fixture_id r = p_fixture_id q)
            (predictions (save_prediction t' q (save_result t (p_fixture_id q) hg ag db))))
           = [''PENDING'']"
  using assms
  by (simp add: finished_after_result filter_after_save prediction_exists_def)

theorem reinsert_resets_status_witness:
  "prediction_exists 7 (save_prediction 10 ex_prediction (init_db None))
   \<and> set (map row_status (filter (\<lambda>r. row_fixture_id r = 7)
        (predictions (save_result 20 7 2 1 (save_prediction 10 ex_prediction (init_db None))))))
       = {''FINISHED''}
   \<and> map row_status (filter (\<lambda>r. row_fixture_id r = 7)
        (predictions (save_prediction 30 ex_prediction
           (save_result 20 7 2 1 (save_prediction 10 ex_prediction (init_db None))))))
       = [''PENDING'']"
  using reinsert_resets_status
    [of ex_prediction "save_prediction 10 ex_prediction (init_db None)" 20 2 1 30]
  by (simp add: save_prediction_def prediction_exists_def row_fixture_id_def
      ex_prediction_def init_db_def)

section \<open>Properties of the scan cycle\<close>

lemma rbind_simps [simp]: "rbind (Inl e) f = Inl e" "rbind (Inr v) f = f v"
  by (simp_all add: rbind_def)

lemma ebind_lift_simps [simp]:
  "ebind (lift (Inl e)) f = ([], Inl e)" "ebind (lift (Inr v)) f = f v"
  by (simp_all add: ebind_def lift_def split: prod.splits)

lemma ebind_emit: "ebind (emit es) f = (es @ fst (f ()), snd (f ()))"
  by (simp add: ebind_def emit_def split: prod.splits)

lemma ebind_lift_InrE:
  assumes "ebind (lift r) f = (evs, Inr v)"
  obtains x where "r = Inr x" and "f x = (evs, Inr v)"
  using assms by (cases r) simp_all

lemma ebind_emit_InrE:
  assumes "ebind (emit es) f = (evs, Inr v)"
  obtains evs1 where "f () = (evs1, Inr v)" and "evs = es @ evs1"
  using assms by (cases "f ()") (simp add: ebind_emit)

lemma lift_eqE:
  assumes "lift r = (evs, x)"
  obtains "evs = []" and "r = x"
  using assms by (simp add: lift_def)

lemma predict_match_Some:
  assumes "predict_match self it league = (evs, Inr (Some p))"
  shows "fx_id (fi_match it) = Some (p_fixture_id p) \<and> evs = [Scored (p_fixture_id p)]"
  using assms unfolding predict_match_def Let_def
  by (auto elim!: ebind_lift_InrE ebind_emit_InrE lift_eqE simp: item_def split: if_splits option.splits)



lemma fst_ebind_lift:
  "fst (ebind (lift r) f) = (case r of Inl e \<Rightarrow> [] | Inr x \<Rightarrow> fst (f x))"
  by (cases r) simp_all

lemma snd_ebind_lift:
  "snd (ebind (lift r) f) = (case r of Inl e \<Rightarrow> Inl e | Inr x \<Rightarrow> snd (f x))"
  by (cases r) simp_all

lemma fst_snd_lift: "fst (lift r) = []" "snd (lift r) = r"
  by (simp_all add: lift_def)

lemma fst_snd_ebind_emit:
  "fst (ebind (emit es) f) = es @ fst (f ())" "snd (ebind (emit es) f) = snd (f ())"
  by (simp_all add: ebind_emit)

lemmas trace_simps = fst_ebind_lift snd_ebind_lift fst_snd_lift fst_snd_ebind_emit

lemma predict_match_events:
  "fst (predict_match self it league) = [] \<or>
   (\<exists>fid. fx_id (fi_match it) = Some fid \<and> over25_model (mon_predictor self) \<noteq> None
      \<and> fst (predict_match self it league) = [Scored fid])"
  unfolding predict_match_def Let_def
  by (auto simp: trace_simps predict_over25_def split: sum.splits option.splits)

lemma predict_match_Some_model:
  assumes "snd (predict_match self it league) = Inr (Some p)"
  shows "over25_model (mon_predictor self) \<noteq> None"
  using assms unfolding predict_match_def Let_def
  by (auto simp: trace_simps predict_over25_def split: sum.splits option.splits if_splits)


lemma saved_ids_append: "saved_ids (xs @ ys) = saved_ids xs @ saved_ids ys"
  by (induction xs rule: saved_ids.induct) simp_all

lemma scored_ids_append: "scored_ids (xs @ ys) = scored_ids xs @ scored_ids ys"
  by (induction xs rule: scored_ids.induct) simp_all

lemma predict_match_trace_irrelevant:
  "predict_match (self\<lparr>mon_trace := t\<rparr>) it league = predict_match self it league"
  unfolding predict_match_def Let_def by (simp cong: if_cong)

lemma predict_match_btts_min_irrelevant:
  "predict_match (self\<lparr>mon_config := (mon_config self)\<lparr>cfg_btts_min_probability := b\<rparr>\<rparr>) it league
     = predict_match self it league"
  unfolding predict_match_def Let_def by (simp cong: if_cong)

lemma process_match_cases:
  obtains (quiet) evs where
      "process_match now cname it self = self\<lparr>mon_trace := mon_trace self @ evs\<rparr>"
      "saved_ids evs = []"
      "scored_ids evs = [] \<or>
         (over25_model (mon_predictor self) \<noteq> None \<and>
          (\<exists>fid. fx_id (fi_match it) = Some fid \<and> \<not> prediction_exists fid (mon_db self)))"
  | (saved) p where
      "fx_id (fi_match it) = Some (p_fixture_id p)"
      "\<not> prediction_exists (p_fixture_id p) (mon_db self)"
      "over25_model (mon_predictor self) \<noteq> None"
      "process_match now cname it self =
         persist now p (self\<lparr>mon_trace := mon_trace self @ [Scored (p_fixture_id p)]\<rparr>)"
      "snd (predict_match self it cname) = Inr (Some p)"
proof (cases "fx_status (fi_match it) \<noteq> Some ''SCHEDULED'' \<and> fx_status (fi_match it) \<noteq> Some ''TIMED''")
  case True
  then have "process_match now cname it self = self\<lparr>mon_trace := mon_trace self @ []\<rparr>"
    by (simp add: process_match_def)
  then show ?thesis by (rule quiet) simp_all
next
  case False
  then have handler: "process_match now cname it self =
      (case try_match now cname it self of
         (self1, Inl e) \<Rightarrow> self1\<lparr>mon_trace := mon_trace self1 @ [ErrorLogged e]\<rparr>
       | (self1, Inr u) \<Rightarrow> self1)"
    unfolding process_match_def by (simp only: if_False)
  show ?thesis
  proof (cases "rbind (item (fx_utcDate (fi_match it))) fromisoformat")
    case (Inl e)
    then have "try_match now cname it self = (self, Inl e)"
      by (simp add: try_match_def)
    with handler
    have "process_match now cname it self = self\<lparr>mon_trace := mon_trace self @ [ErrorLogged e]\<rparr>"
      by simp
    then show ?thesis by (rule quiet) simp_all
  next
    case kick: (Inr kickoff)
    show ?thesis
    proof (cases "kickoff \<le> now")
      case True
      with kick have "try_match now cname it self = (self, Inr ())"
        by (simp add: try_match_def)
      with handler
      have "process_match now cname it self = self\<lparr>mon_trace := mon_trace self @ []\<rparr>"
        by simp
      then show ?thesis by (rule quiet) simp_all
    next
      case future: False
      show ?thesis
      proof (cases "fx_id (fi_match it)")
        case None
        with kick future have "try_match now cname it self = (self, Inl KeyError)"
          by (simp add: try_match_def item_def)
        with handler
        have "process_match now cname it self =
            self\<lparr>mon_trace := mon_trace self @ [ErrorLogged KeyError]\<rparr>"
          by simp
        then show ?thesis by (rule quiet) simp_all
      next
        case fid: (Some fixture_id)
        then have it: "item (fx_id (fi_match it)) = Inr fixture_id"
          by (simp add: item_def)
        show ?thesis
        proof (cases "prediction_exists fixture_id (mon_db self)")
          case True
          with kick future it have "try_match now cname it self = (self, Inr ())"
            by (simp add: try_match_def)
          with handler
          have "process_match now cname it self = self\<lparr>mon_trace := mon_trace self @ []\<rparr>"
            by simp
          then show ?thesis by (rule quiet) simp_all
        next
          case new: False
          with kick future it
          have tm: "try_match now cname it self = try_predict now cname it self"
            by (simp add: try_match_def)
          obtain evs r where pm: "predict_match self it cname = (evs, r)"
            by (cases "predict_match self it cname")
          have evs: "evs = [] \<or> (over25_model (mon_predictor self) \<noteq> None \<and> evs = [Scored fixture_id])"
            using predict_match_events [of self it cname] pm fid by auto
          show ?thesis
          proof (cases r)
            case (Inl e)
            with handler tm pm
            have eq: "process_match now cname it self =
                self\<lparr>mon_trace := mon_trace self @ (evs @ [ErrorLogged e])\<rparr>"
              by (simp add: try_predict_def)
            show ?thesis
              by (rule quiet [OF eq])
                (use evs fid new in \<open>auto simp: saved_ids_append scored_ids_append\<close>)
          next
            case (Inr res)
            show ?thesis
            proof (cases res)
              case None
              with handler tm pm Inr
              have eq: "process_match now cname it self = self\<lparr>mon_trace := mon_trace self @ evs\<rparr>"
                by (simp add: try_predict_def)
              show ?thesis
                by (rule quiet [OF eq]) (use evs fid new in auto)
            next
              case (Some p)
              with pm Inr have pmS: "predict_match self it cname = (evs, Inr (Some p))" by simp
              from predict_match_Some [OF pmS] fid
              have p: "p_fixture_id p = fixture_id" "evs = [Scored (p_fixture_id p)]" by simp_all
              have m: "over25_model (mon_predictor self) \<noteq> None"
                using predict_match_Some_model [of self it cname p] pmS by simp
              have eq: "process_match now cname it self =
                  persist now p (self\<lparr>mon_trace := mon_trace self @ [Scored (p_fixture_id p)]\<rparr>)"
                using handler tm pmS p by (simp add: try_predict_def)
              show ?thesis
                by (rule saved [OF _ _ m eq]) (use fid p new pmS in simp_all)
            qed
          qed
        qed
      qed
    qed
  qed
qed

lemma predict_match_set_btts_min:
  "predict_match (set_btts_min b self) it league = predict_match self it league"
  by (simp add: set_btts_min_def predict_match_btts_min_irrelevant)

lemma try_predict_set_btts_min:
  "try_predict now cname it (set_btts_min b self) =
     (set_btts_min b (fst (try_predict now cname it self)), snd (try_predict now cname it self))"
  by (simp add: try_predict_def predict_match_btts_min_irrelevant Let_def persist_def
      set_btts_min_def split: sum.splits option.splits)

lemma try_match_set_btts_min:
  "try_match now cname it (set_btts_min b self) =
     (set_btts_min b (fst (try_match now cname it self)), snd (try_match now cname it self))"
  by (simp add: try_match_def try_predict_set_btts_min split: sum.splits)
     (simp add: set_btts_min_def)

lemma process_match_set_btts_min:
  "process_match now cname it (set_btts_min b self) =
     set_btts_min b (process_match now cname it self)"
  by (simp add: process_match_def try_match_set_btts_min split: prod.splits sum.splits)
     (auto simp add: set_btts_min_def)

lemma scan_matches_set_btts_min:
  "scan_matches now cname its (set_btts_min b self) =
     set_btts_min b (scan_matches now cname its self)"
  by (induction its arbitrary: self) (simp_all add: process_match_set_btts_min)

lemma scan_leagues_set_btts_min:
  "scan_leagues c ls (set_btts_min b self) = set_btts_min b (scan_leagues c ls self)"
  by (induction ls arbitrary: self) (auto simp add: scan_matches_set_btts_min)

lemma scan_upcoming_set_btts_min:
  "scan_upcoming_matches c (set_btts_min b self) = set_btts_min b (scan_upcoming_matches c self)"
  by (simp add: scan_upcoming_matches_def scan_leagues_set_btts_min) (simp add: set_btts_min_def)

lemma monitor_loop_set_btts_min:
  "monitor_loop inputs (set_btts_min b self) = set_btts_min b (monitor_loop inputs self)"
proof (induction inputs arbitrary: self)
  case Nil
  show ?case by simp
next
  case (Cons x xs)
  have r: "mon_running (set_btts_min b self) = mon_running self"
    by (simp add: set_btts_min_def)
  have i: "(set_btts_min b self)\<lparr>mon_running := False\<rparr> = set_btts_min b (self\<lparr>mon_running := False\<rparr>)"
    by (simp add: set_btts_min_def)
  show ?case
    by (cases x) (simp_all add: r i scan_upcoming_set_btts_min Cons.IH)
qed

lemma predict_match_accepts:
  assumes "snd (predict_match self it league) = Inr (Some p)"
  shows "\<not> p_over25_prob p < cfg_over25_min_probability (mon_config self)"
proof -
  obtain evs where "predict_match self it league = (evs, Inr (Some p))"
    using assms by (cases "predict_match self it league") simp
  then show ?thesis
    unfolding predict_match_def Let_def
    by (auto elim!: ebind_lift_InrE ebind_emit_InrE lift_eqE split: if_splits)
qed

lemma ex_extract_features:
  "\<exists>fs. extract_features ''Arsenal'' ''Chelsea'' ex_home_history ex_away_history ''Premier League'' 200 = Inr fs
     \<and> feature fs ''lambda_home'' = Inr (200 / 141) \<and> feature fs ''lambda_away'' = Inr (100 / 141)
     \<and> feature fs ''expected_total_goals'' = Inr (100 / 47) \<and> feature fs ''home_points_form_5'' = Inr 3
     \<and> feature fs ''away_points_form_3'' = Inr 1"
  by (simp add: extract_features_def ex_home_history_def ex_away_history_def Let_def py_div_def
      goals_avg_def goals_conceded_avg_def points_form_def goal_difference_def h2h_goals_avg_def
      h2h_btts_rate_def win_rate_def over_rate_def btts_rate_def clean_sheet_rate_def
      List.map_filter_simps league_avg_def league_avg_goals_def goals_for_def goals_against_def
      is_h2h_def both_pos_def mean_def scored_conceded_def total_goals_def feature_def)

lemma ex_item_reads:
  "fx_homeTeam (fi_match ex_item) = Some \<lparr>t_id = Some 57, t_name = Some ''Arsenal''\<rparr>"
  "fx_awayTeam (fi_match ex_item) = Some \<lparr>t_id = Some 61, t_name = Some ''Chelsea''\<rparr>"
  "fx_utcDate (fi_match ex_item) = Some (Iso 200)"
  "fx_id (fi_match ex_item) = Some 1"
  "fx_status (fi_match ex_item) = Some ''SCHEDULED''"
  "fetch_list (fi_home_history ex_item) = ex_home_history"
  "fetch_list (fi_away_history ex_item) = ex_away_history"
  "ex_home_history \<noteq> []" "ex_away_history \<noteq> []"
  by (simp_all add: ex_item_def ex_fixture_def fetch_list_def
      ex_home_history_def ex_away_history_def)

lemma ex_predict_match_no_model:
  assumes "over25_model (mon_predictor self) = None"
  shows "predict_match self ex_item ''Premier League'' = ([], Inl ValueError)"
proof -
  obtain fs where fs:
    "extract_features ''Arsenal'' ''Chelsea'' ex_home_history ex_away_history ''Premier League'' 200 = Inr fs"
    using ex_extract_features by blast
  show ?thesis
    unfolding predict_match_def Let_def
    by (simp add: ex_item_reads fs predict_over25_def assms item_def fromisoformat_def)
qed

lemma ex_predict_match_model:
  assumes "over25_model (mon_predictor self) = Some (\<lambda>features. p)"
    and "cfg_over25_min_probability (mon_config self) = 0.65"
  shows "predict_match self ex_item ''Premier League'' =
     ([Scored 1],
      Inr (if p < 0.65 then None
           else Some (ex_accepted\<lparr>p_over25_prob := p,
                  p_over25_confidence :=
                    (if p \<ge> 0.75 then ''High'' else if p \<ge> 0.65 then ''Medium'' else ''Low'')\<rparr>)))"
proof -
  obtain fs where fs:
    "extract_features ''Arsenal'' ''Chelsea'' ex_home_history ex_away_history ''Premier League'' 200 = Inr fs"
    "feature fs ''lambda_home'' = Inr (200 / 141)" "feature fs ''lambda_away'' = Inr (100 / 141)"
    "feature fs ''expected_total_goals'' = Inr (100 / 47)" "feature fs ''home_points_form_5'' = Inr 3"
    "feature fs ''away_points_form_3'' = Inr 1"
    using ex_extract_features by blast
  show ?thesis
    unfolding predict_match_def Let_def
    by (simp add: ex_item_reads fs predict_over25_def assms ebind_emit fst_snd_lift ex_accepted_def
        item_def fromisoformat_def)
qed


lemma ledger_ids_exists: "prediction_exists fid db \<longleftrightarrow> fid \<in> ledger_ids db"
  by (auto simp add: prediction_exists_def ledger_ids_def filter_empty_conv)

lemma ledger_ids_save:
  "ledger_ids (save_prediction t p db) = insert (p_fixture_id p) (ledger_ids db)"
  by (auto simp add: ledger_ids_def save_prediction_def row_fixture_id_def)

lemma dedup_inv_process_match:
  assumes "dedup_inv db0 self"
  shows "dedup_inv db0 (process_match now cname it self)"
proof (cases rule: process_match_cases [of now cname it self])
  case (quiet evs)
  with assms show ?thesis
    by (simp add: dedup_inv_def saved_ids_append)
next
  case (saved p)
  with assms show ?thesis
    by (auto simp add: dedup_inv_def saved_ids_append persist_def ledger_ids_save ledger_ids_exists)
qed

lemma dedup_inv_scan_matches:
  "dedup_inv db0 self \<Longrightarrow> dedup_inv db0 (scan_matches now cname its self)"
  by (induction its arbitrary: self) (simp_all add: dedup_inv_process_match)

lemma dedup_inv_scan_leagues:
  "dedup_inv db0 self \<Longrightarrow> dedup_inv db0 (scan_leagues c ls self)"
  by (induction ls arbitrary: self) (auto simp add: dedup_inv_scan_matches)

lemma dedup_inv_monitor_loop:
  "dedup_inv db0 self \<Longrightarrow> dedup_inv db0 (monitor_loop inputs self)"
proof (induction inputs arbitrary: self)
  case Nil
  then show ?case by simp
next
  case (Cons x xs)
  have stop: "dedup_inv db0 (self\<lparr>mon_running := False\<rparr>)"
    using Cons.prems by (simp add: dedup_inv_def)
  have scan: "dedup_inv db0 (scan_upcoming_matches c self)" for c
    using Cons.prems by (simp add: scan_upcoming_matches_def dedup_inv_scan_leagues)
  show ?case
    using Cons.prems by (cases x) (simp_all add: Cons.IH stop scan)
qed

lemma dedup_inv_start: "dedup_inv (mon_db self) (self\<lparr>mon_trace := []\<rparr>)"
  by (simp add: dedup_inv_def)

lemma existing_fixture_skipped:
  assumes "prediction_exists fid (mon_db self)" and "fx_id (fi_match it) = Some fid"
  shows "\<exists>evs. process_match now cname it self = self\<lparr>mon_trace := mon_trace self @ evs\<rparr>
           \<and> scored_ids evs = [] \<and> saved_ids evs = []"
proof (cases rule: process_match_cases [of now cname it self])
  case (quiet evs)
  with assms show ?thesis by auto
next
  case (saved p)
  with assms show ?thesis by simp
qed

lemma monitor_trace_only:
  assumes "a\<lparr>mon_trace := []\<rparr> = b\<lparr>mon_trace := []\<rparr>"
  shows "a = b\<lparr>mon_trace := mon_trace a\<rparr>"
  using assms by (cases a, cases b) simp

lemma try_predict_untraced:
  "fst (try_predict now cname it (self\<lparr>mon_trace := t\<rparr>))\<lparr>mon_trace := []\<rparr> =
     fst (try_predict now cname it self)\<lparr>mon_trace := []\<rparr>
   \<and> snd (try_predict now cname it (self\<lparr>mon_trace := t\<rparr>)) = snd (try_predict now cname it self)"
  by (simp add: try_predict_def predict_match_trace_irrelevant Let_def persist_def
      split: sum.splits option.splits)

lemma try_match_untraced:
  "fst (try_match now cname it (self\<lparr>mon_trace := t\<rparr>))\<lparr>mon_trace := []\<rparr> =
     fst (try_match now cname it self)\<lparr>mon_trace := []\<rparr>
   \<and> snd (try_match now cname it (self\<lparr>mon_trace := t\<rparr>)) = snd (try_match now cname it self)"
  by (simp add: try_match_def try_predict_untraced split: sum.splits)

lemma process_match_untraced:
  "(process_match now cname it (self\<lparr>mon_trace := t\<rparr>))\<lparr>mon_trace := []\<rparr> =
     (process_match now cname it self)\<lparr>mon_trace := []\<rparr>"
proof -
  obtain a r where a: "try_match now cname it (self\<lparr>mon_trace := t\<rparr>) = (a, r)"
    by (cases "try_match now cname it (self\<lparr>mon_trace := t\<rparr>)")
  obtain b r' where b: "try_match now cname it self = (b, r')"
    by (cases "try_match now cname it self")
  from try_match_untraced [where now=now and cname=cname and it=it and self=self and t=t] a b
  have "a\<lparr>mon_trace := []\<rparr> = b\<lparr>mon_trace := []\<rparr>" and "r = r'" by simp_all
  then show ?thesis
    by (cases r') (simp_all add: process_match_def a b)
qed

lemma scan_matches_untraced:
  "(scan_matches now cname its (self\<lparr>mon_trace := t\<rparr>))\<lparr>mon_trace := []\<rparr> =
     (scan_matches now cname its self)\<lparr>mon_trace := []\<rparr>"
proof (induction its arbitrary: self t)
  case Nil
  show ?case by simp
next
  case (Cons it its)
  let ?a = "process_match now cname it (self\<lparr>mon_trace := t\<rparr>)"
  let ?b = "process_match now cname it self"
  have "?a = ?b\<lparr>mon_trace := mon_trace ?a\<rparr>"
    by (rule monitor_trace_only) (rule process_match_untraced)
  then have "scan_matches now cname its ?a = scan_matches now cname its (?b\<lparr>mon_trace := mon_trace ?a\<rparr>)"
    by simp
  then show ?case by (simp add: Cons.IH)
qed

lemma scan_matches_append:
  "scan_matches now cname (xs @ ys) self = scan_matches now cname ys (scan_matches now cname xs self)"
  by (induction xs arbitrary: self) simp_all

lemma try_match_error:
  assumes "snd (try_match now cname it self) = Inl e"
  shows "\<exists>evs. fst (try_match now cname it self) = self\<lparr>mon_trace := mon_trace self @ evs\<rparr>
           \<and> saved_ids evs = []"
proof -
  have q: "\<exists>evs. self = self\<lparr>mon_trace := mon_trace self @ evs\<rparr> \<and> saved_ids evs = []"
    by (rule exI [of _ "[]"]) simp
  have ev: "saved_ids (fst (predict_match self it cname)) = []"
    using predict_match_events [of self it cname] by auto
  have p: "\<exists>evs. self\<lparr>mon_trace := mon_trace self @ fst (predict_match self it cname)\<rparr>
              = self\<lparr>mon_trace := mon_trace self @ evs\<rparr> \<and> saved_ids evs = []"
    using ev by blast
  show ?thesis
    using assms q p
    by (auto simp add: try_match_def try_predict_def Let_def split: sum.splits if_splits option.splits)
qed

lemma failed_step:
  assumes "snd (try_match now cname it self) = Inl e"
  shows "\<exists>evs. process_match now cname it self = self\<lparr>mon_trace := mon_trace self @ evs\<rparr>
           \<and> saved_ids evs = []"
proof (cases "fx_status (fi_match it) \<noteq> Some ''SCHEDULED'' \<and> fx_status (fi_match it) \<noteq> Some ''TIMED''")
  case True
  then have "process_match now cname it self = self\<lparr>mon_trace := mon_trace self @ []\<rparr>"
    by (simp add: process_match_def)
  then show ?thesis by (intro exI [of _ "[]"]) simp
next
  case False
  obtain evs where evs: "fst (try_match now cname it self) = self\<lparr>mon_trace := mon_trace self @ evs\<rparr>"
      "saved_ids evs = []"
    using try_match_error [OF assms] by blast
  obtain a where a: "try_match now cname it self = (a, Inl e)"
    using assms by (cases "try_match now cname it self") simp
  have "process_match now cname it self = self\<lparr>mon_trace := mon_trace self @ (evs @ [ErrorLogged e])\<rparr>"
    using False a evs by (simp add: process_match_def)
  then show ?thesis
    using evs by (intro exI [of _ "evs @ [ErrorLogged e]"]) (simp add: saved_ids_append)
qed

lemma predict_match_Some_history:
  assumes "snd (predict_match self it league) = Inr (Some p)"
  shows "fetch_list (fi_home_history it) \<noteq> [] \<and> fetch_list (fi_away_history it) \<noteq> []"
proof -
  obtain evs where "predict_match self it league = (evs, Inr (Some p))"
    using assms by (cases "predict_match self it league") simp
  then show ?thesis
    unfolding predict_match_def Let_def
    by (auto elim!: ebind_lift_InrE ebind_emit_InrE lift_eqE split: if_splits)
qed

lemma no_history_step:
  assumes "fetch_list (fi_home_history it) = [] \<or> fetch_list (fi_away_history it) = []"
  shows "\<exists>evs. process_match now cname it self = self\<lparr>mon_trace := mon_trace self @ evs\<rparr>
           \<and> saved_ids evs = []"
proof (cases rule: process_match_cases [of now cname it self])
  case (quiet evs)
  then show ?thesis by blast
next
  case (saved p)
  with predict_match_Some_history [of self it cname p] assms show ?thesis by blast
qed

text \<open>A step that saves nothing can be taken out of the feed without changing the ledger
  the loop leaves.\<close>

lemma quiet_step_removable:
  assumes "process_match now cname it (scan_matches now cname pre self) =
             (scan_matches now cname pre self)
               \<lparr>mon_trace := mon_trace (scan_matches now cname pre self) @ evs\<rparr>"
  shows "mon_db (scan_matches now cname (pre @ it # post) self)
           = mon_db (scan_matches now cname (pre @ post) self)"
proof -
  let ?m = "scan_matches now cname pre self"
  have "scan_matches now cname (pre @ it # post) self
          = scan_matches now cname post (?m\<lparr>mon_trace := mon_trace ?m @ evs\<rparr>)"
    by (simp add: scan_matches_append assms)
  then have "(scan_matches now cname (pre @ it # post) self)\<lparr>mon_trace := []\<rparr>
          = (scan_matches now cname (pre @ post) self)\<lparr>mon_trace := []\<rparr>"
    by (simp add: scan_matches_untraced scan_matches_append)
  then have "mon_db ((scan_matches now cname (pre @ it # post) self)\<lparr>mon_trace := []\<rparr>)
          = mon_db ((scan_matches now cname (pre @ post) self)\<lparr>mon_trace := []\<rparr>)"
    by (rule arg_cong)
  then show ?thesis by simp
qed

lemma no_model_process_match:
  assumes "over25_model (mon_predictor self) = None"
  shows "\<exists>evs. process_match now cname it self = self\<lparr>mon_trace := mon_trace self @ evs\<rparr>
           \<and> scored_ids evs = [] \<and> saved_ids evs = []"
proof (cases rule: process_match_cases [of now cname it self])
  case (quiet evs)
  with assms show ?thesis by auto
next
  case (saved p)
  with assms show ?thesis by simp
qed

lemma no_model_scan_matches:
  assumes "over25_model (mon_predictor self) = None"
  shows "\<exists>evs. scan_matches now cname its self = self\<lparr>mon_trace := mon_trace self @ evs\<rparr>
           \<and> scored_ids evs = [] \<and> saved_ids evs = []"
  using assms
proof (induction its arbitrary: self)
  case Nil
  show ?case by (intro exI [of _ "[]"]) simp
next
  case (Cons it its)
  obtain evs1 where s1: "process_match now cname it self = self\<lparr>mon_trace := mon_trace self @ evs1\<rparr>"
      "scored_ids evs1 = []" "saved_ids evs1 = []"
    using no_model_process_match [OF Cons.prems] by blast
  let ?m = "self\<lparr>mon_trace := mon_trace self @ evs1\<rparr>"
  have "over25_model (mon_predictor ?m) = None" using Cons.prems by simp
  from Cons.IH [OF this]
  obtain evs2 where s2: "scan_matches now cname its ?m = ?m\<lparr>mon_trace := mon_trace ?m @ evs2\<rparr>"
      "scored_ids evs2 = []" "saved_ids evs2 = []"
    by blast
  show ?case
    using s1 s2
    by (intro exI [of _ "evs1 @ evs2"]) (simp add: scored_ids_append saved_ids_append)
qed

lemma no_model_scan_leagues:
  assumes "over25_model (mon_predictor self) = None"
  shows "\<exists>evs. scan_leagues c ls self = self\<lparr>mon_trace := mon_trace self @ evs\<rparr>
           \<and> scored_ids evs = [] \<and> saved_ids evs = []"
  using assms
proof (induction ls arbitrary: self)
  case Nil
  show ?case by (intro exI [of _ "[]"]) simp
next
  case (Cons l ls)
  obtain code info where l: "l = (code, info)" by (cases l)
  obtain evs1 where s1:
      "scan_matches (cy_now_utc c) (lg_name info) (fetch_list (cy_matches c (lg_id info))) self
         = self\<lparr>mon_trace := mon_trace self @ evs1\<rparr>"
      "scored_ids evs1 = []" "saved_ids evs1 = []"
    using no_model_scan_matches [OF Cons.prems] by blast
  let ?m = "self\<lparr>mon_trace := mon_trace self @ evs1\<rparr>"
  have "over25_model (mon_predictor ?m) = None" using Cons.prems by simp
  from Cons.IH [OF this]
  obtain evs2 where s2: "scan_leagues c ls ?m = ?m\<lparr>mon_trace := mon_trace ?m @ evs2\<rparr>"
      "scored_ids evs2 = []" "saved_ids evs2 = []"
    by blast
  show ?case
    using s1 s2 l
    by (intro exI [of _ "evs1 @ evs2"]) (simp add: scored_ids_append saved_ids_append)
qed

lemma no_model_monitor_loop:
  assumes "over25_model (mon_predictor self) = None"
  shows "mon_db (monitor_loop inputs self) = mon_db self
       \<and> scored_ids (mon_trace (monitor_loop inputs self)) = scored_ids (mon_trace self)
       \<and> saved_ids (mon_trace (monitor_loop inputs self)) = saved_ids (mon_trace self)"
  using assms
proof (induction inputs arbitrary: self)
  case Nil
  show ?case by simp
next
  case (Cons x xs)
  show ?case
  proof (cases "mon_running self")
    case False
    then show ?thesis by simp
  next
    case True
    show ?thesis
    proof (cases x)
      case KeyboardInterrupt
      have "over25_model (mon_predictor (self\<lparr>mon_running := False\<rparr>)) = None"
        using Cons.prems by simp
      from Cons.IH [OF this] True KeyboardInterrupt show ?thesis by simp
    next
      case (Cycle c)
      obtain evs where s: "scan_upcoming_matches c self = self\<lparr>mon_trace := mon_trace self @ evs\<rparr>"
          "scored_ids evs = []" "saved_ids evs = []"
        using no_model_scan_leagues [OF Cons.prems] unfolding scan_upcoming_matches_def by blast
      let ?m = "self\<lparr>mon_trace := mon_trace self @ evs\<rparr>"
      have "over25_model (mon_predictor ?m) = None" using Cons.prems by simp
      from Cons.IH [OF this] True Cycle s show ?thesis
        by (simp add: scored_ids_append saved_ids_append)
    qed
  qed
qed

lemma ex_process_match_no_model:
  assumes "over25_model (mon_predictor self) = None" and "\<not> prediction_exists 1 (mon_db self)"
  shows "process_match 100 ''Premier League'' ex_item self =
           self\<lparr>mon_trace := mon_trace self @ [ErrorLogged ValueError]\<rparr>"
  using assms
  by (simp add: process_match_def try_match_def try_predict_def ex_item_reads item_def
      fromisoformat_def ex_predict_match_no_model)

lemma ex_process_match_model:
  assumes "over25_model (mon_predictor self) = Some (\<lambda>features. p)"
    and "cfg_over25_min_probability (mon_config self) = 0.65"
    and "\<not> prediction_exists 1 (mon_db self)"
  shows "process_match 100 ''Premier League'' ex_item self =
           (if p < 0.65 then self\<lparr>mon_trace := mon_trace self @ [Scored 1]\<rparr>
            else persist 100
              (ex_accepted\<lparr>p_over25_prob := p,
                  p_over25_confidence :=
                    (if p \<ge> 0.75 then ''High'' else if p \<ge> 0.65 then ''Medium'' else ''Low'')\<rparr>)
              (self\<lparr>mon_trace := mon_trace self @ [Scored 1]\<rparr>))"
  using assms(3)
  by (simp add: process_match_def try_match_def try_predict_def ex_item_reads item_def
      fromisoformat_def ex_predict_match_model [OF assms(1,2)])

text \<open>
  Claim C8 as stated fails for scoring: a fixture scored below the acceptance threshold
  leaves no ledger row, and the next cycle scores it again.
\<close>

theorem rejected_fixture_scored_again:
  "scored_ids (mon_trace (monitor_loop [Cycle ex_cycle, Cycle ex_cycle] (ex_monitor (1 / 2)))) = [1, 1]"
proof -
  have one: "process_match 100 ''Premier League'' ex_item ((ex_monitor (1 / 2))\<lparr>mon_trace := t\<rparr>) =
      (ex_monitor (1 / 2))\<lparr>mon_trace := t @ [Scored 1]\<rparr>" for t
    using ex_process_match_model [of "(ex_monitor (1 / 2))\<lparr>mon_trace := t\<rparr>" "1 / 2"]
    by (simp add: ex_monitor_def ex_config_def prediction_exists_def init_db_def)
  have cyc: "scan_upcoming_matches ex_cycle ((ex_monitor (1 / 2))\<lparr>mon_trace := t\<rparr>) =
      (ex_monitor (1 / 2))\<lparr>mon_trace := t @ [Scored 1]\<rparr>" for t
    using one [of t]
    by (simp add: scan_upcoming_matches_def ex_cycle_def fetch_list_def ex_monitor_def
        ex_config_def)
  have r: "mon_running ((ex_monitor (1 / 2))\<lparr>mon_trace := t\<rparr>)" for t
    by (simp add: ex_monitor_def)
  have e: "ex_monitor (1 / 2) = (ex_monitor (1 / 2))\<lparr>mon_trace := []\<rparr>"
    by (simp add: ex_monitor_def)
  have "monitor_loop [Cycle ex_cycle, Cycle ex_cycle] ((ex_monitor (1 / 2))\<lparr>mon_trace := []\<rparr>)
          = (ex_monitor (1 / 2))\<lparr>mon_trace := [Scored 1, Scored 1]\<rparr>"
    by (simp add: cyc r)
  then show ?thesis using e by simp
qed

lemma ex_two_cycles:
  "monitor_loop [Cycle ex_cycle, Cycle ex_cycle] (ex_monitor (7 / 10)) =
     (ex_monitor (7 / 10))
       \<lparr>mon_db := save_prediction 100 ex_accepted (init_db None),
        mon_trace := [Scored 1, Saved 1]\<rparr>"
proof -
  let ?m = "ex_monitor (7 / 10)"
  let ?m1 = "?m\<lparr>mon_db := save_prediction 100 ex_accepted (init_db None),
        mon_trace := [Scored 1, Saved 1]\<rparr>"
  have first: "process_match 100 ''Premier League'' ex_item ?m = ?m1"
    using ex_process_match_model [of ?m "7 / 10"]
    by (simp add: ex_monitor_def ex_config_def prediction_exists_def init_db_def persist_def
        ex_accepted_def)
  have ex: "prediction_exists 1 (mon_db ?m1)"
    by (simp add: prediction_exists_def save_prediction_def row_fixture_id_def ex_accepted_def)
  have second: "process_match 100 ''Premier League'' ex_item ?m1 = ?m1"
    using ex
    by (simp add: process_match_def try_match_def ex_item_reads item_def fromisoformat_def)
  have c1: "scan_upcoming_matches ex_cycle ?m = ?m1"
    using first
    by (simp add: scan_upcoming_matches_def ex_cycle_def fetch_list_def ex_monitor_def
        ex_config_def)
  have c2: "scan_upcoming_matches ex_cycle ?m1 = ?m1"
    using second
    by (simp add: scan_upcoming_matches_def ex_cycle_def fetch_list_def ex_monitor_def
        ex_config_def)
  have r: "mon_running ?m" "mon_running ?m1" by (simp_all add: ex_monitor_def)
  show ?thesis by (simp add: c1 c2 r)
qed

text \<open>The entries that \<open>_predict_match\<close> reads back are there whenever extraction
  succeeded.\<close>

lemma extract_features_entries:
  assumes "extract_features h a hh ah l k = Inr fs"
  shows "feature fs ''lambda_home'' = Inr (the (map_of fs ''lambda_home''))"
    and "feature fs ''lambda_away'' = Inr (the (map_of fs ''lambda_away''))"
    and "feature fs ''expected_total_goals'' = Inr (the (map_of fs ''expected_total_goals''))"
    and "feature fs ''home_points_form_5'' = Inr (the (map_of fs ''home_points_form_5''))"
    and "feature fs ''away_points_form_3'' = Inr (the (map_of fs ''away_points_form_3''))"
  using assms unfolding extract_features_def Let_def
  by (auto simp: rbind_def feature_def split: sum.splits)

lemma fixture_reads_Some:
  assumes "fixture_reads match = Some (hn, an, k)"
  shows "rbind (item (fx_homeTeam match)) (\<lambda>h. item (t_name h)) = Inr hn"
    and "rbind (item (fx_awayTeam match)) (\<lambda>a. item (t_name a)) = Inr an"
    and "\<exists>hid. rbind (item (fx_homeTeam match)) (\<lambda>h. item (t_id h)) = Inr hid"
    and "\<exists>aid. rbind (item (fx_awayTeam match)) (\<lambda>a. item (t_id a)) = Inr aid"
    and "item (fx_utcDate match) = Inr (Iso k)"
  using assms
  by (auto simp: fixture_reads_def item_def split: option.splits date_str.splits)


lemma reaches_scoringE:
  assumes "reaches_scoring now league it db fid fs"
  obtains hn an k where
    "fx_status (fi_match it) = Some ''SCHEDULED'' \<or> fx_status (fi_match it) = Some ''TIMED''"
    "fx_id (fi_match it) = Some fid" "\<not> prediction_exists fid db"
    "fetch_list (fi_home_history it) \<noteq> []" "fetch_list (fi_away_history it) \<noteq> []"
    "fixture_reads (fi_match it) = Some (hn, an, k)" "now < k"
    "extract_features hn an (fetch_list (fi_home_history it)) (fetch_list (fi_away_history it))
       league k = Inr fs"
  using assms unfolding reaches_scoring_def
  by (auto split: option.splits)

lemma predict_match_scoring_no_model:
  assumes "reaches_scoring now league it db fid fs"
    and "over25_model (mon_predictor self) = None"
  shows "predict_match self it league = ([], Inl ValueError)"
proof -
  from assms(1) obtain hn an k where r:
    "fetch_list (fi_home_history it) \<noteq> []" "fetch_list (fi_away_history it) \<noteq> []"
    "fixture_reads (fi_match it) = Some (hn, an, k)"
    "extract_features hn an (fetch_list (fi_home_history it)) (fetch_list (fi_away_history it))
       league k = Inr fs"
    by (rule reaches_scoringE)
  from fixture_reads_Some [OF r(3)] obtain hid aid where k:
    "rbind (item (fx_homeTeam (fi_match it))) (\<lambda>h. item (t_name h)) = Inr hn"
    "rbind (item (fx_awayTeam (fi_match it))) (\<lambda>a. item (t_name a)) = Inr an"
    "rbind (item (fx_homeTeam (fi_match it))) (\<lambda>h. item (t_id h)) = Inr hid"
    "rbind (item (fx_awayTeam (fi_match it))) (\<lambda>a. item (t_id a)) = Inr aid"
    "item (fx_utcDate (fi_match it)) = Inr (Iso k)"
    by blast
  show ?thesis
    unfolding predict_match_def Let_def
    by (simp add: k r fromisoformat_def predict_over25_def assms(2))
qed

lemma predict_match_scoring_model:
  assumes "reaches_scoring now league it db fid fs"
    and "over25_model (mon_predictor self) = Some m"
  shows "m (feature_values fs) < cfg_over25_min_probability (mon_config self) \<Longrightarrow>
           predict_match self it league = ([Scored fid], Inr None)"
    and "\<not> m (feature_values fs) < cfg_over25_min_probability (mon_config self) \<Longrightarrow>
           \<exists>p lh la. predict_match self it league = ([Scored fid], Inr (Some p))
             \<and> p_fixture_id p = fid \<and> p_over25_prob p = m (feature_values fs)
             \<and> feature fs ''lambda_home'' = Inr lh \<and> feature fs ''lambda_away'' = Inr la
             \<and> p_btts_prob p = predict_btts lh la 1"
proof -
  from assms(1) obtain hn an k where r:
    "fetch_list (fi_home_history it) \<noteq> []" "fetch_list (fi_away_history it) \<noteq> []"
    "fixture_reads (fi_match it) = Some (hn, an, k)"
    "extract_features hn an (fetch_list (fi_home_history it)) (fetch_list (fi_away_history it))
       league k = Inr fs"
    and fid: "fx_id (fi_match it) = Some fid"
    by (rule reaches_scoringE)
  from fixture_reads_Some [OF r(3)] obtain hid aid where k:
    "rbind (item (fx_homeTeam (fi_match it))) (\<lambda>h. item (t_name h)) = Inr hn"
    "rbind (item (fx_awayTeam (fi_match it))) (\<lambda>a. item (t_name a)) = Inr an"
    "rbind (item (fx_homeTeam (fi_match it))) (\<lambda>h. item (t_id h)) = Inr hid"
    "rbind (item (fx_awayTeam (fi_match it))) (\<lambda>a. item (t_id a)) = Inr aid"
    "item (fx_utcDate (fi_match it)) = Inr (Iso k)"
    by blast
  note e = extract_features_entries [OF r(4)]
  have i: "item (Some fid) = Inr fid" by (simp add: item_def)
  show "m (feature_values fs) < cfg_over25_min_probability (mon_config self) \<Longrightarrow>
           predict_match self it league = ([Scored fid], Inr None)"
    unfolding predict_match_def Let_def
    by (simp add: k r e i fid fromisoformat_def predict_over25_def Let_def assms(2) ebind_emit
        fst_snd_lift)
  show "\<not> m (feature_values fs) < cfg_over25_min_probability (mon_config self) \<Longrightarrow>
           \<exists>p lh la. predict_match self it league = ([Scored fid], Inr (Some p))
             \<and> p_fixture_id p = fid \<and> p_over25_prob p = m (feature_values fs)
             \<and> feature fs ''lambda_home'' = Inr lh \<and> feature fs ''lambda_away'' = Inr la
             \<and> p_btts_prob p = predict_btts lh la 1"
    unfolding predict_match_def Let_def
    by (simp add: k r e i fid fromisoformat_def predict_over25_def Let_def assms(2) ebind_emit
        fst_snd_lift)
qed

lemma scan_all_append:
  "scan_all now (xs @ ys) self = scan_all now ys (scan_all now xs self)"
  by (induction xs arbitrary: self) auto

lemma scan_matches_scan_all:
  "scan_matches now cname its self = scan_all now (map (Pair cname) its) self"
  by (induction its arbitrary: self) simp_all

lemma scan_leagues_scan_all:
  "scan_leagues c ls self = scan_all (cy_now_utc c) (cycle_fixtures c ls) self"
  by (induction ls arbitrary: self) (auto simp add: scan_all_append scan_matches_scan_all)

lemma scan_upcoming_scan_all:
  "scan_upcoming_matches c self =
     scan_all (cy_now_utc c) (cycle_fixtures c (cfg_leagues (mon_config self))) self"
  by (simp add: scan_upcoming_matches_def scan_leagues_scan_all)

lemma scan_all_untraced:
  "(scan_all now xs (self\<lparr>mon_trace := t\<rparr>))\<lparr>mon_trace := []\<rparr> =
     (scan_all now xs self)\<lparr>mon_trace := []\<rparr>"
proof (induction xs arbitrary: self t)
  case Nil
  show ?case by simp
next
  case (Cons x xs)
  obtain cname it where x: "x = (cname, it)" by (cases x)
  let ?a = "process_match now cname it (self\<lparr>mon_trace := t\<rparr>)"
  let ?b = "process_match now cname it self"
  have "?a = ?b\<lparr>mon_trace := mon_trace ?a\<rparr>"
    by (rule monitor_trace_only) (rule process_match_untraced)
  then have "scan_all now xs ?a = scan_all now xs (?b\<lparr>mon_trace := mon_trace ?a\<rparr>)"
    by simp
  then show ?case by (simp add: x Cons.IH)
qed

text \<open>An iteration only appends to the trace, keeps every ledger identifier, and leaves
  the configuration, the predictor and the running flag alone.\<close>

lemma process_match_grows:
  "\<exists>evs. mon_trace (process_match now cname it self) = mon_trace self @ evs"
  "ledger_ids (mon_db self) \<subseteq> ledger_ids (mon_db (process_match now cname it self))"
  "mon_predictor (process_match now cname it self) = mon_predictor self"
  "mon_config (process_match now cname it self) = mon_config self"
  by (cases rule: process_match_cases [of now cname it self];
      auto simp add: persist_def ledger_ids_save)+

lemma scan_all_trace_grows:
  "\<exists>evs. mon_trace (scan_all now xs self) = mon_trace self @ evs"
proof (induction xs arbitrary: self)
  case Nil
  show ?case by simp
next
  case (Cons x xs)
  obtain cname it where x: "x = (cname, it)" by (cases x)
  let ?m = "process_match now cname it self"
  obtain evs1 where e1: "mon_trace ?m = mon_trace self @ evs1"
    using process_match_grows(1) [of now cname it self] by (elim exE)
  obtain evs2 where e2: "mon_trace (scan_all now xs ?m) = mon_trace ?m @ evs2"
    using Cons.IH [of ?m] by (elim exE)
  show ?case by (intro exI [of _ "evs1 @ evs2"]) (simp add: x e1 e2)
qed

lemma scan_all_ledger_grows:
  "ledger_ids (mon_db self) \<subseteq> ledger_ids (mon_db (scan_all now xs self))"
proof (induction xs arbitrary: self)
  case Nil
  show ?case by simp
next
  case (Cons x xs)
  obtain cname it where x: "x = (cname, it)" by (cases x)
  from process_match_grows(2) [of self now cname it]
    Cons.IH [of "process_match now cname it self"]
  show ?case by (auto simp add: x)
qed

lemma scan_all_keeps:
  "mon_predictor (scan_all now xs self) = mon_predictor self
   \<and> mon_config (scan_all now xs self) = mon_config self"
proof (induction xs arbitrary: self)
  case Nil
  show ?case by simp
next
  case (Cons x xs)
  obtain cname it where x: "x = (cname, it)" by (cases x)
  from process_match_grows(3,4) [of now cname it self]
    Cons.IH [of "process_match now cname it self"]
  show ?case by (simp add: x)
qed

lemma process_match_scoring_no_model:
  assumes "reaches_scoring now league it (mon_db self) fid fs"
    and "over25_model (mon_predictor self) = None"
  shows "process_match now league it self =
           self\<lparr>mon_trace := mon_trace self @ [ErrorLogged ValueError]\<rparr>"
proof -
  from assms(1) obtain hn an k where r:
    "fx_status (fi_match it) = Some ''SCHEDULED'' \<or> fx_status (fi_match it) = Some ''TIMED''"
    "fx_id (fi_match it) = Some fid" "\<not> prediction_exists fid (mon_db self)"
    "fixture_reads (fi_match it) = Some (hn, an, k)" "now < k"
    by (rule reaches_scoringE)
  have d: "rbind (item (fx_utcDate (fi_match it))) fromisoformat = Inr k"
    using fixture_reads_Some(5) [OF r(4)] by (simp add: fromisoformat_def)
  have i: "item (fx_id (fi_match it)) = Inr fid" using r(2) by (simp add: item_def)
  have s: "\<not> (fx_status (fi_match it) \<noteq> Some ''SCHEDULED'' \<and> fx_status (fi_match it) \<noteq> Some ''TIMED'')"
    using r(1) by blast
  have nk: "(k \<le> now) = False" using r(5) by simp
  show ?thesis
    unfolding process_match_def
    by (simp only: s if_False)
       (simp add: try_match_def try_predict_def d i r(3) nk
          predict_match_scoring_no_model [OF assms])
qed

lemma process_match_scoring_model:
  assumes "reaches_scoring now league it (mon_db self) fid fs"
    and "over25_model (mon_predictor self) = Some m"
  shows "m (feature_values fs) < cfg_over25_min_probability (mon_config self) \<Longrightarrow>
           process_match now league it self = self\<lparr>mon_trace := mon_trace self @ [Scored fid]\<rparr>"
    and "\<not> m (feature_values fs) < cfg_over25_min_probability (mon_config self) \<Longrightarrow>
           \<exists>p lh la. process_match now league it self =
                 persist now p (self\<lparr>mon_trace := mon_trace self @ [Scored fid]\<rparr>)
             \<and> p_fixture_id p = fid \<and> p_over25_prob p = m (feature_values fs)
             \<and> feature fs ''lambda_home'' = Inr lh \<and> feature fs ''lambda_away'' = Inr la
             \<and> p_btts_prob p = predict_btts lh la 1"
proof -
  from assms(1) obtain hn an k where r:
    "fx_status (fi_match it) = Some ''SCHEDULED'' \<or> fx_status (fi_match it) = Some ''TIMED''"
    "fx_id (fi_match it) = Some fid" "\<not> prediction_exists fid (mon_db self)"
    "fixture_reads (fi_match it) = Some (hn, an, k)" "now < k"
    by (rule reaches_scoringE)
  have d: "rbind (item (fx_utcDate (fi_match it))) fromisoformat = Inr k"
    using fixture_reads_Some(5) [OF r(4)] by (simp add: fromisoformat_def)
  have i: "item (fx_id (fi_match it)) = Inr fid" using r(2) by (simp add: item_def)
  have s: "\<not> (fx_status (fi_match it) \<noteq> Some ''SCHEDULED'' \<and> fx_status (fi_match it) \<noteq> Some ''TIMED'')"
    using r(1) by blast
  have nk: "(k \<le> now) = False" using r(5) by simp
  have step: "process_match now league it self =
      (case try_predict now league it self of
         (self1, Inl e) \<Rightarrow> self1\<lparr>mon_trace := mon_trace self1 @ [ErrorLogged e]\<rparr>
       | (self1, Inr u) \<Rightarrow> self1)"
    unfolding process_match_def
    by (simp only: s if_False) (simp add: try_match_def d i r(3) nk)
  show "m (feature_values fs) < cfg_over25_min_probability (mon_config self) \<Longrightarrow>
           process_match now league it self = self\<lparr>mon_trace := mon_trace self @ [Scored fid]\<rparr>"
    using predict_match_scoring_model(1) [OF assms]
    by (simp add: step try_predict_def)
  assume "\<not> m (feature_values fs) < cfg_over25_min_probability (mon_config self)"
  from predict_match_scoring_model(2) [OF assms this]
  obtain p lh la where p: "predict_match self it league = ([Scored fid], Inr (Some p))"
      "p_fixture_id p = fid" "p_over25_prob p = m (feature_values fs)"
      "feature fs ''lambda_home'' = Inr lh" "feature fs ''lambda_away'' = Inr la"
      "p_btts_prob p = predict_btts lh la 1"
    by blast
  have "process_match now league it self =
      persist now p (self\<lparr>mon_trace := mon_trace self @ [Scored fid]\<rparr>)"
    by (simp add: step try_predict_def p(1))
  with p show "\<exists>p lh la. process_match now league it self =
                 persist now p (self\<lparr>mon_trace := mon_trace self @ [Scored fid]\<rparr>)
             \<and> p_fixture_id p = fid \<and> p_over25_prob p = m (feature_values fs)
             \<and> feature fs ''lambda_home'' = Inr lh \<and> feature fs ''lambda_away'' = Inr la
             \<and> p_btts_prob p = predict_btts lh la 1"
    by blast
qed

lemma ex_extract_features_value:
  "extract_features ''Arsenal'' ''Chelsea'' ex_home_history ex_away_history ''Premier League'' 200
     = Inr ex_features"
  by (simp add: extract_features_def ex_home_history_def ex_away_history_def Let_def py_div_def
      goals_avg_def goals_conceded_avg_def points_form_def goal_difference_def h2h_goals_avg_def
      h2h_btts_rate_def win_rate_def over_rate_def btts_rate_def clean_sheet_rate_def
      List.map_filter_simps league_avg_def league_avg_goals_def goals_for_def goals_against_def
      is_h2h_def both_pos_def mean_def scored_conceded_def total_goals_def ex_features_def)

lemma ex_reaches_scoring:
  assumes "\<not> prediction_exists 1 db" and "now < 200"
  shows "reaches_scoring now ''Premier League'' ex_item db 1 ex_features"
  using assms
  by (simp add: reaches_scoring_def fixture_reads_def ex_item_reads ex_extract_features_value)

lemma failed_step_logged:
  assumes "snd (try_match now cname it self) = Inl e"
    and "fx_status (fi_match it) = Some ''SCHEDULED'' \<or> fx_status (fi_match it) = Some ''TIMED''"
  shows "\<exists>evs. process_match now cname it self =
             self\<lparr>mon_trace := mon_trace self @ evs @ [ErrorLogged e]\<rparr> \<and> saved_ids evs = []"
proof -
  obtain evs where evs: "fst (try_match now cname it self) = self\<lparr>mon_trace := mon_trace self @ evs\<rparr>"
      "saved_ids evs = []"
    using try_match_error [OF assms(1)] by blast
  obtain a where a: "try_match now cname it self = (a, Inl e)"
    using assms(1) by (cases "try_match now cname it self") simp
  have s: "\<not> (fx_status (fi_match it) \<noteq> Some ''SCHEDULED'' \<and> fx_status (fi_match it) \<noteq> Some ''TIMED'')"
    using assms(2) by blast
  have "process_match now cname it self = self\<lparr>mon_trace := mon_trace self @ evs @ [ErrorLogged e]\<rparr>"
    unfolding process_match_def using a evs by (simp only: s if_False) simp
  with evs show ?thesis by blast
qed

lemma untraced_fields:
  assumes "a\<lparr>mon_trace := []\<rparr> = b\<lparr>mon_trace := []\<rparr>"
  shows "mon_db a = mon_db b" "mon_predictor a = mon_predictor b" "mon_config a = mon_config b"
  using assms by (cases a, cases b, simp)+

text \<open>
  Claim C7.  A scan cycle runs the loop body over the fixtures of every configured
  competition, in order.  When the processing of one fixture of the cycle fails, either
  by raising an error (a malformed fixture, a failure in feature extraction or scoring)
  or because a history request failed and so yielded no matches, then
  \<^item> that iteration changes nothing but the trace and records no save, and when an error
    was raised in the \<open>try\<close> block it ends by logging that error;
  \<^item> the cycle goes on with all the remaining fixtures, from the state that iteration left;
  \<^item> the ledger at the end of the cycle is the one that processing the other fixtures
    alone leaves;
  \<^item> every later fixture of the cycle that gets as far as scoring when the others are
    processed alone is scored in this cycle as well, and is saved when its over-2.5
    probability is not below the configured minimum.
\<close>

theorem failed_fixture_skipped:
  assumes "cycle_fixtures c (cfg_leagues (mon_config self)) = pre @ (cname, it) # post"
    and "snd (try_match (cy_now_utc c) cname it (scan_all (cy_now_utc c) pre self)) = Inl e
         \<or> fetch_list (fi_home_history it) = [] \<or> fetch_list (fi_away_history it) = []"
  shows "(\<exists>evs. process_match (cy_now_utc c) cname it (scan_all (cy_now_utc c) pre self) =
              (scan_all (cy_now_utc c) pre self)
                \<lparr>mon_trace := mon_trace (scan_all (cy_now_utc c) pre self) @ evs\<rparr>
            \<and> saved_ids evs = []
            \<and> ((fx_status (fi_match it) = Some ''SCHEDULED'' \<or> fx_status (fi_match it) = Some ''TIMED'')
                 \<and> snd (try_match (cy_now_utc c) cname it (scan_all (cy_now_utc c) pre self)) = Inl e
               \<longrightarrow> evs \<noteq> [] \<and> last evs = ErrorLogged e))
       \<and> scan_upcoming_matches c self =
           scan_all (cy_now_utc c) post
             (process_match (cy_now_utc c) cname it (scan_all (cy_now_utc c) pre self))
       \<and> mon_db (scan_upcoming_matches c self) = mon_db (scan_all (cy_now_utc c) (pre @ post) self)
       \<and> (post = mid @ (cname', nxt) # rest
            \<and> reaches_scoring (cy_now_utc c) cname' nxt
                 (mon_db (scan_all (cy_now_utc c) (pre @ mid) self)) fid fs
            \<and> over25_model (mon_predictor self) = Some m
          \<longrightarrow> Scored fid \<in> set (mon_trace (scan_upcoming_matches c self))
            \<and> (\<not> m (feature_values fs) < cfg_over25_min_probability (mon_config self)
                \<longrightarrow> Saved fid \<in> set (mon_trace (scan_upcoming_matches c self))
                  \<and> prediction_exists fid (mon_db (scan_upcoming_matches c self))))"
proof -
  let ?now = "cy_now_utc c"
  let ?M = "scan_all ?now pre self"
  let ?F = "scan_upcoming_matches c self"
  have quiet: "\<exists>evs. process_match ?now cname it ?M = ?M\<lparr>mon_trace := mon_trace ?M @ evs\<rparr>
            \<and> saved_ids evs = []
            \<and> ((fx_status (fi_match it) = Some ''SCHEDULED'' \<or> fx_status (fi_match it) = Some ''TIMED'')
                 \<and> snd (try_match ?now cname it ?M) = Inl e
               \<longrightarrow> evs \<noteq> [] \<and> last evs = ErrorLogged e)"
  proof (cases "(fx_status (fi_match it) = Some ''SCHEDULED'' \<or> fx_status (fi_match it) = Some ''TIMED'')
                 \<and> snd (try_match ?now cname it ?M) = Inl e")
    case True
    then obtain evs where "process_match ?now cname it ?M =
             ?M\<lparr>mon_trace := mon_trace ?M @ evs @ [ErrorLogged e]\<rparr>" "saved_ids evs = []"
      using failed_step_logged [of ?now cname it ?M e] by blast
    then show ?thesis
      by (intro exI [of _ "evs @ [ErrorLogged e]"]) (simp add: saved_ids_append)
  next
    case False
    have "\<exists>evs. process_match ?now cname it ?M = ?M\<lparr>mon_trace := mon_trace ?M @ evs\<rparr>
           \<and> saved_ids evs = []"
    proof (cases "snd (try_match ?now cname it ?M)")
      case (Inl e')
      then show ?thesis by (rule failed_step)
    next
      case (Inr u)
      with assms(2) have "fetch_list (fi_home_history it) = [] \<or> fetch_list (fi_away_history it) = []"
        by simp
      then show ?thesis by (rule no_history_step)
    qed
    with False show ?thesis by blast
  qed
  then obtain evs where step: "process_match ?now cname it ?M = ?M\<lparr>mon_trace := mon_trace ?M @ evs\<rparr>"
    by blast
  have run: "?F = scan_all ?now post (process_match ?now cname it ?M)"
    by (simp add: scan_upcoming_scan_all assms(1) scan_all_append)
  have "?F\<lparr>mon_trace := []\<rparr> = (scan_all ?now (pre @ post) self)\<lparr>mon_trace := []\<rparr>"
    by (simp add: run step scan_all_untraced scan_all_append)
  then have db: "mon_db ?F = mon_db (scan_all ?now (pre @ post) self)"
    by (rule untraced_fields)
  have later: "Scored fid \<in> set (mon_trace ?F)
            \<and> (\<not> m (feature_values fs) < cfg_over25_min_probability (mon_config self)
                \<longrightarrow> Saved fid \<in> set (mon_trace ?F) \<and> prediction_exists fid (mon_db ?F))"
    if post: "post = mid @ (cname', nxt) # rest"
      and reach: "reaches_scoring ?now cname' nxt (mon_db (scan_all ?now (pre @ mid) self)) fid fs"
      and model: "over25_model (mon_predictor self) = Some m"
  proof -
    let ?N = "scan_all ?now mid (process_match ?now cname it ?M)"
    let ?X = "process_match ?now cname' nxt ?N"
    have "?N\<lparr>mon_trace := []\<rparr> = (scan_all ?now (pre @ mid) self)\<lparr>mon_trace := []\<rparr>"
      by (simp add: step scan_all_untraced scan_all_append)
    then have "mon_db ?N = mon_db (scan_all ?now (pre @ mid) self)"
      by (rule untraced_fields)
    with reach have reachN: "reaches_scoring ?now cname' nxt (mon_db ?N) fid fs" by simp
    have keep: "mon_predictor ?N = mon_predictor self" "mon_config ?N = mon_config self"
      using scan_all_keeps [of ?now mid "process_match ?now cname it ?M"]
        process_match_grows(3,4) [of ?now cname it ?M] scan_all_keeps [of ?now pre self]
      by simp_all
    have modelN: "over25_model (mon_predictor ?N) = Some m" using model keep by simp
    have fin: "?F = scan_all ?now rest ?X"
      by (simp add: run post scan_all_append)
    obtain tail where tail: "mon_trace ?F = mon_trace ?X @ tail"
      using scan_all_trace_grows [of ?now rest ?X] fin by auto
    have grow: "ledger_ids (mon_db ?X) \<subseteq> ledger_ids (mon_db ?F)"
      using scan_all_ledger_grows [of ?X ?now rest] fin by simp
    show ?thesis
    proof (cases "m (feature_values fs) < cfg_over25_min_probability (mon_config self)")
      case True
      then have "?X = ?N\<lparr>mon_trace := mon_trace ?N @ [Scored fid]\<rparr>"
        using process_match_scoring_model(1) [OF reachN modelN] keep by simp
      then have "Scored fid \<in> set (mon_trace ?X)" by simp
      with tail True show ?thesis by simp
    next
      case False
      then obtain p where p: "?X = persist ?now p (?N\<lparr>mon_trace := mon_trace ?N @ [Scored fid]\<rparr>)"
          "p_fixture_id p = fid"
        using process_match_scoring_model(2) [OF reachN modelN] keep by auto
      have "Scored fid \<in> set (mon_trace ?X)" "Saved fid \<in> set (mon_trace ?X)"
        "fid \<in> ledger_ids (mon_db ?X)"
        by (simp_all add: p persist_def ledger_ids_save)
      with tail grow show ?thesis by (auto simp add: ledger_ids_exists)
    qed
  qed
  from quiet run db later show ?thesis by blast
qed

lemma ex_bad_item_raises:
  "snd (try_match 100 ''Premier League'' ex_bad_item (ex_monitor p)) = Inl KeyError"
  by (simp add: try_match_def try_predict_def predict_match_def ex_bad_item_def ex_item_def
      ex_fixture_def item_def fromisoformat_def ex_monitor_def prediction_exists_def
      init_db_def)

lemma ex_cycle_of_fixtures:
  "cycle_fixtures (ex_cycle_of items) (cfg_leagues (mon_config (ex_monitor p))) =
     map (Pair ''Premier League'') items"
  "cy_now_utc (ex_cycle_of items) = 100"
  by (simp_all add: ex_cycle_of_def ex_monitor_def ex_config_def fetch_list_def)

theorem failed_fixture_skipped_witness:
  "cycle_fixtures (ex_cycle_of [ex_bad_item, ex_item])
       (cfg_leagues (mon_config (ex_monitor (7 / 10))))
     = [] @ (''Premier League'', ex_bad_item) # [(''Premier League'', ex_item)]
   \<and> snd (try_match 100 ''Premier League'' ex_bad_item (scan_all 100 [] (ex_monitor (7 / 10))))
       = Inl KeyError
   \<and> fx_status (fi_match ex_bad_item) = Some ''SCHEDULED''
   \<and> reaches_scoring 100 ''Premier League'' ex_item
        (mon_db (scan_all 100 ([] @ []) (ex_monitor (7 / 10)))) 1 ex_features
   \<and> over25_model (mon_predictor (ex_monitor (7 / 10))) = Some (\<lambda>features. 7 / 10)
   \<and> \<not> (7 / 10 :: real) < cfg_over25_min_probability (mon_config (ex_monitor (7 / 10)))
   \<and> Scored 1 \<in> set (mon_trace (scan_upcoming_matches (ex_cycle_of [ex_bad_item, ex_item])
        (ex_monitor (7 / 10))))
   \<and> Saved 1 \<in> set (mon_trace (scan_upcoming_matches (ex_cycle_of [ex_bad_item, ex_item])
        (ex_monitor (7 / 10))))
   \<and> prediction_exists 1 (mon_db (scan_upcoming_matches (ex_cycle_of [ex_bad_item, ex_item])
        (ex_monitor (7 / 10))))
   \<and> fetch_list (fi_home_history ex_unfetched_item) = []
   \<and> prediction_exists 1 (mon_db (scan_upcoming_matches
        (ex_cycle_of [ex_unfetched_item, ex_item]) (ex_monitor (7 / 10))))"
proof -
  let ?S = "ex_monitor (7 / 10)"
  let ?c = "ex_cycle_of [ex_bad_item, ex_item]"
  let ?c2 = "ex_cycle_of [ex_unfetched_item, ex_item]"
  have cyc: "cycle_fixtures ?c (cfg_leagues (mon_config ?S))
      = [] @ (''Premier League'', ex_bad_item) # [(''Premier League'', ex_item)]"
    and cyc2: "cycle_fixtures ?c2 (cfg_leagues (mon_config ?S))
      = [] @ (''Premier League'', ex_unfetched_item) # [(''Premier League'', ex_item)]"
    by (simp_all add: ex_cycle_of_fixtures)
  have raised: "snd (try_match 100 ''Premier League'' ex_bad_item (scan_all 100 [] ?S))
      = Inl KeyError"
    by (simp add: ex_bad_item_raises)
  have status: "fx_status (fi_match ex_bad_item) = Some ''SCHEDULED''"
    by (simp add: ex_bad_item_def ex_fixture_def)
  have unfetched: "fetch_list (fi_home_history ex_unfetched_item) = []"
    by (simp add: ex_unfetched_item_def fetch_list_def)
  have reach: "reaches_scoring 100 ''Premier League'' ex_item
        (mon_db (scan_all 100 ([] @ []) ?S)) 1 ex_features"
    by (rule ex_reaches_scoring)
       (simp_all add: ex_monitor_def prediction_exists_def init_db_def)
  have model: "over25_model (mon_predictor ?S) = Some (\<lambda>features. 7 / 10)"
    and prob: "\<not> (7 / 10 :: real) < cfg_over25_min_probability (mon_config ?S)"
    by (simp_all add: ex_monitor_def ex_config_def)
  have post: "[(''Premier League'', ex_item)] = [] @ (''Premier League'', ex_item) # []"
    by simp
  have raised': "snd (try_match (cy_now_utc ?c) ''Premier League'' ex_bad_item
        (scan_all (cy_now_utc ?c) [] ?S)) = Inl KeyError
      \<or> fetch_list (fi_home_history ex_bad_item) = []
      \<or> fetch_list (fi_away_history ex_bad_item) = []"
    using raised by (simp add: ex_cycle_of_fixtures)
  have unfetched': "snd (try_match (cy_now_utc ?c2) ''Premier League'' ex_unfetched_item
        (scan_all (cy_now_utc ?c2) [] ?S)) = Inl KeyError
      \<or> fetch_list (fi_home_history ex_unfetched_item) = []
      \<or> fetch_list (fi_away_history ex_unfetched_item) = []"
    using unfetched by simp
  have reach': "reaches_scoring (cy_now_utc ?c) ''Premier League'' ex_item
        (mon_db (scan_all (cy_now_utc ?c) ([] @ []) ?S)) 1 ex_features"
    "reaches_scoring (cy_now_utc ?c2) ''Premier League'' ex_item
        (mon_db (scan_all (cy_now_utc ?c2) ([] @ []) ?S)) 1 ex_features"
    using reach by (simp_all add: ex_cycle_of_fixtures)
  note first = failed_fixture_skipped
    [OF cyc raised', of "[]" "''Premier League''" ex_item "[]" 1 ex_features
      "\<lambda>features. 7 / 10"]
  note second = failed_fixture_skipped
    [OF cyc2 unfetched', of "[]" "''Premier League''" ex_item "[]" 1 ex_features
      "\<lambda>features. 7 / 10"]
  from first reach'(1) model prob post
  have a: "Scored 1 \<in> set (mon_trace (scan_upcoming_matches ?c ?S))
      \<and> Saved 1 \<in> set (mon_trace (scan_upcoming_matches ?c ?S))
      \<and> prediction_exists 1 (mon_db (scan_upcoming_matches ?c ?S))"
    by blast
  from second reach'(2) model prob post
  have b: "prediction_exists 1 (mon_db (scan_upcoming_matches ?c2 ?S))"
    by blast
  from cyc raised status reach model prob a unfetched b show ?thesis by blast
qed

lemma monitor_loop_grows:
  "(\<exists>evs. mon_trace (monitor_loop inputs self) = mon_trace self @ evs)
   \<and> mon_predictor (monitor_loop inputs self) = mon_predictor self
   \<and> mon_config (monitor_loop inputs self) = mon_config self"
proof (induction inputs arbitrary: self)
  case Nil
  show ?case by simp
next
  case (Cons x xs)
  show ?case
  proof (cases "mon_running self")
    case False
    then show ?thesis by simp
  next
    case True
    show ?thesis
    proof (cases x)
      case KeyboardInterrupt
      with True Cons.IH [of "self\<lparr>mon_running := False\<rparr>"] show ?thesis by simp
    next
      case (Cycle c)
      let ?m = "scan_upcoming_matches c self"
      have "\<exists>evs. mon_trace ?m = mon_trace self @ evs"
        by (simp only: scan_upcoming_scan_all scan_all_trace_grows)
      then obtain evs1 where e1: "mon_trace ?m = mon_trace self @ evs1"
        by (elim exE)
      have k: "mon_predictor ?m = mon_predictor self" "mon_config ?m = mon_config self"
        using scan_all_keeps [of "cy_now_utc c" _ self] unfolding scan_upcoming_scan_all
        by simp_all
      obtain evs2 where e2: "mon_trace (monitor_loop xs ?m) = mon_trace ?m @ evs2"
        using Cons.IH [of ?m] by (elim conjE exE)
      have "\<exists>evs. mon_trace (monitor_loop xs ?m) = mon_trace self @ evs"
        by (intro exI [of _ "evs1 @ evs2"]) (simp add: e1 e2)
      with Cons.IH [of ?m] k True Cycle show ?thesis by simp
    qed
  qed
qed

text \<open>
  Claim C1, as amended.  When the configuration file is present and the model file is
  absent, the constructor does not fail: \<open>load\<close> prints a warning and leaves the model
  unset, and the monitoring loop is entered.  In every state the loop reaches, every call
  of \<open>predict_over25\<close> raises the model-not-trained error, and for a fixture that gets as
  far as scoring the per-fixture handler catches that error and logs it, changing
  nothing else.  So no fixture is scored and nothing is saved: the ledger stays as it
  was found.
\<close>

theorem absent_model_warns_and_persists_nothing:
  assumes "config_yaml fs = Some cfg" and "over25_voting_pkl (pretrained fs) = None"
  shows "main fs inputs =
           Inr (monitor_loop inputs
                  \<lparr>mon_config = cfg, mon_predictor = predictor_new,
                   mon_db = init_db (predictions_db fs), mon_running = True,
                   mon_trace = [ModelWarning]\<rparr>)
       \<and> (case main fs inputs of
             Inl e \<Rightarrow> False
           | Inr monitor \<Rightarrow>
               mon_db monitor = init_db (predictions_db fs) \<and>
               scored_ids (mon_trace monitor) = [] \<and> saved_ids (mon_trace monitor) = [] \<and>
               ModelWarning \<in> set (mon_trace monitor) \<and>
               predict_over25 (mon_predictor monitor) features = Inl ValueError \<and>
               (reaches_scoring now_utc league it (mon_db monitor) fixture_id features_dict \<longrightarrow>
                  process_match now_utc league it monitor =
                    monitor\<lparr>mon_trace := mon_trace monitor @ [ErrorLogged ValueError]\<rparr>))"
proof -
  let ?m = "\<lparr>mon_config = cfg, mon_predictor = predictor_new,
             mon_db = init_db (predictions_db fs), mon_running = True,
             mon_trace = [ModelWarning]\<rparr>"
  let ?r = "monitor_loop inputs ?m"
  have init: "monitor_init fs = Inr ?m"
    using assms by (simp add: monitor_init_def load_def)
  have none: "over25_model (mon_predictor ?m) = None" by (simp add: predictor_new_def)
  have main: "main fs inputs = Inr ?r" by (simp add: main_def init)
  have pr: "mon_predictor ?r = mon_predictor ?m"
    and tr: "\<exists>evs. mon_trace ?r = mon_trace ?m @ evs"
    using monitor_loop_grows [of inputs ?m] by blast+
  have noneR: "over25_model (mon_predictor ?r) = None" using pr none by simp
  have warn: "ModelWarning \<in> set (mon_trace ?r)" using tr by auto
  have raise: "predict_over25 (mon_predictor ?r) features = Inl ValueError"
    using noneR by (simp add: predict_over25_def)
  have logged: "reaches_scoring now_utc league it (mon_db ?r) fixture_id features_dict \<longrightarrow>
      process_match now_utc league it ?r = ?r\<lparr>mon_trace := mon_trace ?r @ [ErrorLogged ValueError]\<rparr>"
    using process_match_scoring_no_model [of now_utc league it ?r fixture_id features_dict] noneR
    by blast
  from no_model_monitor_loop [OF none, of inputs] warn raise logged
  show ?thesis by (simp add: main)
qed

lemma ex_main_no_model:
  "main ex_files_no_model [Cycle ex_cycle] =
     Inr \<lparr>mon_config = ex_config, mon_predictor = predictor_new, mon_db = init_db None,
          mon_running = True, mon_trace = [ModelWarning, ErrorLogged ValueError]\<rparr>"
proof -
  let ?m = "\<lparr>mon_config = ex_config, mon_predictor = predictor_new, mon_db = init_db None,
          mon_running = True, mon_trace = [ModelWarning]\<rparr>"
  have init: "monitor_init ex_files_no_model = Inr ?m"
    by (simp add: monitor_init_def load_def ex_files_no_model_def)
  have "process_match 100 ''Premier League'' ex_item ?m =
           ?m\<lparr>mon_trace := mon_trace ?m @ [ErrorLogged ValueError]\<rparr>"
    by (rule ex_process_match_no_model)
       (simp_all add: predictor_new_def prediction_exists_def init_db_def)
  then show ?thesis
    by (simp add: main_def init scan_upcoming_matches_def ex_config_def ex_cycle_def fetch_list_def)
qed

theorem absent_model_warns_and_persists_nothing_witness:
  "config_yaml ex_files_no_model = Some ex_config
   \<and> over25_voting_pkl (pretrained ex_files_no_model) = None
   \<and> main ex_files_no_model [Cycle ex_cycle] =
       Inr \<lparr>mon_config = ex_config, mon_predictor = predictor_new, mon_db = init_db None,
            mon_running = True, mon_trace = [ModelWarning, ErrorLogged ValueError]\<rparr>
   \<and> reaches_scoring 150 ''Premier League'' ex_item (init_db None) 1 ex_features
   \<and> predict_over25 predictor_new (feature_values ex_features) = Inl ValueError
   \<and> process_match 150 ''Premier League'' ex_item
        \<lparr>mon_config = ex_config, mon_predictor = predictor_new, mon_db = init_db None,
         mon_running = True, mon_trace = [ModelWarning, ErrorLogged ValueError]\<rparr>
       = \<lparr>mon_config = ex_config, mon_predictor = predictor_new, mon_db = init_db None,
          mon_running = True,
          mon_trace = [ModelWarning, ErrorLogged ValueError, ErrorLogged ValueError]\<rparr>"
proof -
  have c: "config_yaml ex_files_no_model = Some ex_config"
    and m: "over25_voting_pkl (pretrained ex_files_no_model) = None"
    by (simp_all add: ex_files_no_model_def)
  have reach: "reaches_scoring 150 ''Premier League'' ex_item (init_db None) 1 ex_features"
    by (rule ex_reaches_scoring) (simp_all add: prediction_exists_def init_db_def)
  have db: "predictions_db ex_files_no_model = None"
    by (simp add: ex_files_no_model_def)
  note inst = absent_model_warns_and_persists_nothing
    [OF c m, of "[Cycle ex_cycle]" "feature_values ex_features" 150 "''Premier League''"
      ex_item 1 ex_features]
  from inst have "case main ex_files_no_model [Cycle ex_cycle] of
             Inl e \<Rightarrow> False
           | Inr monitor \<Rightarrow>
               mon_db monitor = init_db (predictions_db ex_files_no_model) \<and>
               scored_ids (mon_trace monitor) = [] \<and> saved_ids (mon_trace monitor) = [] \<and>
               ModelWarning \<in> set (mon_trace monitor) \<and>
               predict_over25 (mon_predictor monitor) (feature_values ex_features)
                 = Inl ValueError \<and>
               (reaches_scoring 150 ''Premier League'' ex_item (mon_db monitor) 1 ex_features \<longrightarrow>
                  process_match 150 ''Premier League'' ex_item monitor =
                    monitor\<lparr>mon_trace := mon_trace monitor @ [ErrorLogged ValueError]\<rparr>)"
    by (rule conjunct2)
  then have "predict_over25 predictor_new (feature_values ex_features) = Inl ValueError
      \<and> process_match 150 ''Premier League'' ex_item
        \<lparr>mon_config = ex_config, mon_predictor = predictor_new, mon_db = init_db None,
         mon_running = True, mon_trace = [ModelWarning, ErrorLogged ValueError]\<rparr>
       = \<lparr>mon_config = ex_config, mon_predictor = predictor_new, mon_db = init_db None,
          mon_running = True,
          mon_trace = [ModelWarning, ErrorLogged ValueError, ErrorLogged ValueError]\<rparr>"
    unfolding ex_main_no_model using reach by (simp add: db)
  with c m reach show ?thesis by (simp add: ex_main_no_model)
qed

text \<open>
  Claim C1 as stated fails: started without the model file, the system comes up, runs a
  scan cycle, and logs an error for the fixture it could not score.
\<close>

theorem absent_model_startup_counterexample:
  "main ex_files_no_model [Cycle ex_cycle] =
     Inr \<lparr>mon_config = ex_config, mon_predictor = predictor_new, mon_db = init_db None,
          mon_running = True, mon_trace = [ModelWarning, ErrorLogged ValueError]\<rparr>"
  by (rule ex_main_no_model)

lemma existing_fixture_exact:
  assumes "prediction_exists fid (mon_db self)" and "fx_id (fi_match it) = Some fid"
  shows "process_match now cname it self = self
       \<or> (\<exists>e. rbind (item (fx_utcDate (fi_match it))) fromisoformat = Inl e
             \<and> process_match now cname it self =
                 self\<lparr>mon_trace := mon_trace self @ [ErrorLogged e]\<rparr>)"
proof (cases "fx_status (fi_match it) \<noteq> Some ''SCHEDULED'' \<and> fx_status (fi_match it) \<noteq> Some ''TIMED''")
  case True
  then show ?thesis by (simp add: process_match_def)
next
  case False
  have i: "item (fx_id (fi_match it)) = Inr fid" using assms(2) by (simp add: item_def)
  show ?thesis
  proof (cases "rbind (item (fx_utcDate (fi_match it))) fromisoformat")
    case (Inl e)
    then have "process_match now cname it self = self\<lparr>mon_trace := mon_trace self @ [ErrorLogged e]\<rparr>"
      unfolding process_match_def by (simp only: False if_False) (simp add: try_match_def)
    with Inl show ?thesis by blast
  next
    case (Inr kickoff)
    then have "process_match now cname it self = self"
      unfolding process_match_def
      by (simp only: False if_False) (simp add: try_match_def i assms(1))
    then show ?thesis by blast
  qed
qed

lemma existing_fixture_untouched:
  assumes "prediction_exists fid (mon_db self)" and "fx_id (fi_match it) = Some fid"
    and "fx_utcDate (fi_match it) = Some (Iso kickoff)"
  shows "process_match now cname it self = self"
  using existing_fixture_exact [OF assms(1,2), of now cname] assms(3)
  by (auto simp add: item_def fromisoformat_def)

lemma rejected_fixture_rescored:
  assumes "reaches_scoring now league it (mon_db self) fid fs"
    and "reaches_scoring now' league it (mon_db self) fid fs"
    and "over25_model (mon_predictor self) = Some m"
    and "m (feature_values fs) < cfg_over25_min_probability (mon_config self)"
  shows "process_match now league it self = self\<lparr>mon_trace := mon_trace self @ [Scored fid]\<rparr>"
    and "\<not> prediction_exists fid (mon_db (process_match now league it self))"
    and "process_match now' league it (process_match now league it self) =
           self\<lparr>mon_trace := mon_trace self @ [Scored fid, Scored fid]\<rparr>"
proof -
  let ?s = "self\<lparr>mon_trace := mon_trace self @ [Scored fid]\<rparr>"
  show one: "process_match now league it self = ?s"
    by (rule process_match_scoring_model(1) [OF assms(1,3,4)])
  have none: "\<not> prediction_exists fid (mon_db self)"
    using assms(1) by (rule reaches_scoringE)
  then show "\<not> prediction_exists fid (mon_db (process_match now league it self))"
    by (simp add: one)
  have "process_match now' league it ?s = ?s\<lparr>mon_trace := mon_trace ?s @ [Scored fid]\<rparr>"
    by (rule process_match_scoring_model(1)) (use assms in simp_all)
  then show "process_match now' league it (process_match now league it self) =
           self\<lparr>mon_trace := mon_trace self @ [Scored fid, Scored fid]\<rparr>"
    by (simp add: one)
qed

text \<open>
  Claim C8, as amended.  A fixture whose identifier already has a ledger prediction is
  passed over before feature extraction, scoring or saving: its iteration leaves the
  monitor as it was, ledger and trace alike; only when its date entry is missing or
  malformed does the iteration end earlier, by logging that error.  Along any run of the
  monitoring loop, the saves are for pairwise different fixture identifiers, none of
  which was in the ledger when the run began: no fixture identifier is saved twice.  A
  fixture that was scored and fell below the acceptance threshold gets no ledger row,
  and is scored again when the feed brings it again.
\<close>

theorem no_fixture_persisted_twice:
  "(prediction_exists fid (mon_db self) \<and> fx_id (fi_match it) = Some fid \<longrightarrow>
      (process_match now cname it self = self
       \<or> (\<exists>e. rbind (item (fx_utcDate (fi_match it))) fromisoformat = Inl e
             \<and> process_match now cname it self =
                 self\<lparr>mon_trace := mon_trace self @ [ErrorLogged e]\<rparr>))
      \<and> (fx_utcDate (fi_match it) = Some (Iso kickoff) \<longrightarrow>
           process_match now cname it self = self))
   \<and> distinct (saved_ids (mon_trace (monitor_loop inputs (self\<lparr>mon_trace := []\<rparr>))))
   \<and> set (saved_ids (mon_trace (monitor_loop inputs (self\<lparr>mon_trace := []\<rparr>))))
         \<inter> ledger_ids (mon_db self) = {}
   \<and> (reaches_scoring now league it' (mon_db self) fid' fs
        \<and> reaches_scoring now' league it' (mon_db self) fid' fs
        \<and> over25_model (mon_predictor self) = Some m
        \<and> m (feature_values fs) < cfg_over25_min_probability (mon_config self) \<longrightarrow>
      process_match now league it' self = self\<lparr>mon_trace := mon_trace self @ [Scored fid']\<rparr>
      \<and> \<not> prediction_exists fid' (mon_db (process_match now league it' self))
      \<and> process_match now' league it' (process_match now league it' self) =
           self\<lparr>mon_trace := mon_trace self @ [Scored fid', Scored fid']\<rparr>)"
proof -
  have inv: "dedup_inv (mon_db self) (monitor_loop inputs (self\<lparr>mon_trace := []\<rparr>))"
    by (intro dedup_inv_monitor_loop dedup_inv_start)
  have skip: "prediction_exists fid (mon_db self) \<and> fx_id (fi_match it) = Some fid \<longrightarrow>
      (process_match now cname it self = self
       \<or> (\<exists>e. rbind (item (fx_utcDate (fi_match it))) fromisoformat = Inl e
             \<and> process_match now cname it self =
                 self\<lparr>mon_trace := mon_trace self @ [ErrorLogged e]\<rparr>))
      \<and> (fx_utcDate (fi_match it) = Some (Iso kickoff) \<longrightarrow>
           process_match now cname it self = self)"
    using existing_fixture_exact [of fid self it now cname]
      existing_fixture_untouched [of fid self it kickoff now cname]
    by blast
  have again: "reaches_scoring now league it' (mon_db self) fid' fs
        \<and> reaches_scoring now' league it' (mon_db self) fid' fs
        \<and> over25_model (mon_predictor self) = Some m
        \<and> m (feature_values fs) < cfg_over25_min_probability (mon_config self) \<longrightarrow>
      process_match now league it' self = self\<lparr>mon_trace := mon_trace self @ [Scored fid']\<rparr>
      \<and> \<not> prediction_exists fid' (mon_db (process_match now league it' self))
      \<and> process_match now' league it' (process_match now league it' self) =
           self\<lparr>mon_trace := mon_trace self @ [Scored fid', Scored fid']\<rparr>"
    using rejected_fixture_rescored [of now league it' self fid' fs now' m]
    by blast
  from inv have "distinct (saved_ids (mon_trace (monitor_loop inputs (self\<lparr>mon_trace := []\<rparr>))))
     \<and> set (saved_ids (mon_trace (monitor_loop inputs (self\<lparr>mon_trace := []\<rparr>))))
         \<inter> ledger_ids (mon_db self) = {}"
    by (simp add: dedup_inv_def)
  with skip again show ?thesis by blast
qed

theorem no_fixture_persisted_twice_witness:
  "prediction_exists 1 (mon_db ((ex_monitor (7 / 10))
       \<lparr>mon_db := save_prediction 100 ex_accepted (init_db None)\<rparr>))
   \<and> fx_id (fi_match ex_item) = Some 1
   \<and> fx_utcDate (fi_match ex_item) = Some (Iso 200)
   \<and> process_match 100 ''Premier League'' ex_item
        ((ex_monitor (7 / 10))\<lparr>mon_db := save_prediction 100 ex_accepted (init_db None)\<rparr>)
       = (ex_monitor (7 / 10))\<lparr>mon_db := save_prediction 100 ex_accepted (init_db None)\<rparr>
   \<and> saved_ids (mon_trace (monitor_loop [Cycle ex_cycle, Cycle ex_cycle] (ex_monitor (7 / 10))))
       = [1]
   \<and> reaches_scoring 100 ''Premier League'' ex_item (mon_db (ex_monitor (1 / 2))) 1 ex_features
   \<and> reaches_scoring 150 ''Premier League'' ex_item (mon_db (ex_monitor (1 / 2))) 1 ex_features
   \<and> over25_model (mon_predictor (ex_monitor (1 / 2))) = Some (\<lambda>features. 1 / 2)
   \<and> (1 / 2 :: real) < cfg_over25_min_probability (mon_config (ex_monitor (1 / 2)))
   \<and> \<not> prediction_exists 1
         (mon_db (process_match 100 ''Premier League'' ex_item (ex_monitor (1 / 2))))
   \<and> process_match 150 ''Premier League'' ex_item
        (process_match 100 ''Premier League'' ex_item (ex_monitor (1 / 2)))
       = (ex_monitor (1 / 2))
           \<lparr>mon_trace := mon_trace (ex_monitor (1 / 2)) @ [Scored 1, Scored 1]\<rparr>"
proof -
  let ?s = "(ex_monitor (7 / 10))\<lparr>mon_db := save_prediction 100 ex_accepted (init_db None)\<rparr>"
  let ?r = "ex_monitor (1 / 2)"
  have ex: "prediction_exists 1 (mon_db ?s)"
    by (simp add: prediction_exists_def save_prediction_def row_fixture_id_def ex_accepted_def)
  have id: "fx_id (fi_match ex_item) = Some 1"
    and date: "fx_utcDate (fi_match ex_item) = Some (Iso 200)"
    by (simp_all add: ex_item_reads)
  have two: "saved_ids (mon_trace (monitor_loop [Cycle ex_cycle, Cycle ex_cycle]
      (ex_monitor (7 / 10)))) = [1]"
    unfolding ex_two_cycles by simp
  have reach: "reaches_scoring 100 ''Premier League'' ex_item (mon_db ?r) 1 ex_features"
    "reaches_scoring 150 ''Premier League'' ex_item (mon_db ?r) 1 ex_features"
    by (rule ex_reaches_scoring; simp add: ex_monitor_def prediction_exists_def init_db_def)+
  have model: "over25_model (mon_predictor ?r) = Some (\<lambda>features. 1 / 2)"
    and low: "(1 / 2 :: real) < cfg_over25_min_probability (mon_config ?r)"
    by (simp_all add: ex_monitor_def ex_config_def)
  note skip = no_fixture_persisted_twice
    [where fid = 1 and self = ?s and it = ex_item and now = 100
       and cname = "''Premier League''" and kickoff = 200]
  note again = no_fixture_persisted_twice
    [where self = ?r and it' = ex_item and now = 100 and now' = 150
       and league = "''Premier League''" and fid' = 1 and fs = ex_features
       and m = "\<lambda>features. 1 / 2"]
  from skip ex id date
  have a: "process_match 100 ''Premier League'' ex_item ?s = ?s"
    by blast
  from again reach model low
  have b: "\<not> prediction_exists 1 (mon_db (process_match 100 ''Premier League'' ex_item ?r))
      \<and> process_match 150 ''Premier League'' ex_item
           (process_match 100 ''Premier League'' ex_item ?r)
          = ?r\<lparr>mon_trace := mon_trace ?r @ [Scored 1, Scored 1]\<rparr>"
    by blast
  from ex id date a two reach model low b show ?thesis by blast
qed

text \<open>
  Claim C9.  The value configured as \<open>btts_min_probability\<close> is read and compared with
  nothing: for every value put in its place, \<open>_predict_match\<close> returns the same result
  for every fixture, and the monitoring loop leaves the same ledger and the same trace.
  For a fixture that gets as far as scoring, whether it is saved is decided by the
  over-2.5 probability alone: below the configured \<open>over25_min_probability\<close> nothing is
  saved, and otherwise the prediction is saved, whatever both-teams-score probability
  \<open>predict_btts\<close> gave it.
\<close>

theorem btts_min_never_compared:
  "predict_match (set_btts_min b self) it league = predict_match self it league
   \<and> monitor_loop inputs (set_btts_min b self) = set_btts_min b (monitor_loop inputs self)
   \<and> mon_db (monitor_loop inputs (set_btts_min b self)) = mon_db (monitor_loop inputs self)
   \<and> mon_trace (monitor_loop inputs (set_btts_min b self)) = mon_trace (monitor_loop inputs self)
   \<and> (snd (predict_match self it league) = Inr (Some p) \<longrightarrow>
        cfg_over25_min_probability (mon_config self) \<le> p_over25_prob p)
   \<and> (reaches_scoring now league it (mon_db self) fid fs
        \<and> over25_model (mon_predictor self) = Some m \<longrightarrow>
      (m (feature_values fs) < cfg_over25_min_probability (mon_config self) \<longrightarrow>
         process_match now league it self = self\<lparr>mon_trace := mon_trace self @ [Scored fid]\<rparr>
         \<and> \<not> prediction_exists fid (mon_db (process_match now league it self)))
      \<and> (\<not> m (feature_values fs) < cfg_over25_min_probability (mon_config self) \<longrightarrow>
         (\<exists>q lh la. process_match now league it self =
               persist now q (self\<lparr>mon_trace := mon_trace self @ [Scored fid]\<rparr>)
             \<and> p_fixture_id q = fid \<and> p_over25_prob q = m (feature_values fs)
             \<and> feature fs ''lambda_home'' = Inr lh \<and> feature fs ''lambda_away'' = Inr la
             \<and> p_btts_prob q = predict_btts lh la 1)
         \<and> prediction_exists fid (mon_db (process_match now league it self))))"
proof -
  have db: "mon_db (set_btts_min b m) = mon_db m" and tr: "mon_trace (set_btts_min b m) = mon_trace m"
    for m by (simp_all add: set_btts_min_def)
  have acc: "snd (predict_match self it league) = Inr (Some p) \<longrightarrow>
        cfg_over25_min_probability (mon_config self) \<le> p_over25_prob p"
    using predict_match_accepts [of self it league p] by (simp add: not_less)
  have inv: "predict_match (set_btts_min b self) it league = predict_match self it league
   \<and> monitor_loop inputs (set_btts_min b self) = set_btts_min b (monitor_loop inputs self)
   \<and> mon_db (monitor_loop inputs (set_btts_min b self)) = mon_db (monitor_loop inputs self)
   \<and> mon_trace (monitor_loop inputs (set_btts_min b self)) = mon_trace (monitor_loop inputs self)"
    by (simp add: predict_match_set_btts_min monitor_loop_set_btts_min db tr)
  have dec: "(m (feature_values fs) < cfg_over25_min_probability (mon_config self) \<longrightarrow>
         process_match now league it self = self\<lparr>mon_trace := mon_trace self @ [Scored fid]\<rparr>
         \<and> \<not> prediction_exists fid (mon_db (process_match now league it self)))
      \<and> (\<not> m (feature_values fs) < cfg_over25_min_probability (mon_config self) \<longrightarrow>
         (\<exists>q lh la. process_match now league it self =
               persist now q (self\<lparr>mon_trace := mon_trace self @ [Scored fid]\<rparr>)
             \<and> p_fixture_id q = fid \<and> p_over25_prob q = m (feature_values fs)
             \<and> feature fs ''lambda_home'' = Inr lh \<and> feature fs ''lambda_away'' = Inr la
             \<and> p_btts_prob q = predict_btts lh la 1)
         \<and> prediction_exists fid (mon_db (process_match now league it self)))"
    if reach: "reaches_scoring now league it (mon_db self) fid fs"
      and model: "over25_model (mon_predictor self) = Some m"
  proof (cases "m (feature_values fs) < cfg_over25_min_probability (mon_config self)")
    case True
    have none: "\<not> prediction_exists fid (mon_db self)"
      using reach by (rule reaches_scoringE)
    from process_match_scoring_model(1) [OF reach model True] none True
    show ?thesis by simp
  next
    case False
    from process_match_scoring_model(2) [OF reach model False]
    obtain q lh la where q: "process_match now league it self =
               persist now q (self\<lparr>mon_trace := mon_trace self @ [Scored fid]\<rparr>)"
        "p_fixture_id q = fid" "p_over25_prob q = m (feature_values fs)"
        "feature fs ''lambda_home'' = Inr lh" "feature fs ''lambda_away'' = Inr la"
        "p_btts_prob q = predict_btts lh la 1"
      by blast
    have "prediction_exists fid (mon_db (process_match now league it self))"
      by (simp add: q(1,2) persist_def ledger_ids_exists ledger_ids_save)
    with q False show ?thesis by blast
  qed
  from inv acc dec show ?thesis by blast
qed

theorem btts_min_never_compared_witness:
  "snd (predict_match (ex_monitor (7 / 10)) ex_item ''Premier League'') = Inr (Some ex_accepted)
   \<and> cfg_over25_min_probability (mon_config (ex_monitor (7 / 10))) \<le> p_over25_prob ex_accepted
   \<and> mon_db (monitor_loop [Cycle ex_cycle, Cycle ex_cycle] (set_btts_min 2 (ex_monitor (7 / 10))))
       = save_prediction 100 ex_accepted (init_db None)
   \<and> reaches_scoring 100 ''Premier League'' ex_item (mon_db (ex_monitor (7 / 10))) 1 ex_features
   \<and> over25_model (mon_predictor (ex_monitor (7 / 10))) = Some (\<lambda>features. 7 / 10)
   \<and> \<not> (7 / 10 :: real) < cfg_over25_min_probability (mon_config (ex_monitor (7 / 10)))
   \<and> prediction_exists 1
        (mon_db (process_match 100 ''Premier League'' ex_item (ex_monitor (7 / 10))))
   \<and> reaches_scoring 100 ''Premier League'' ex_item (mon_db (ex_monitor (1 / 2))) 1 ex_features
   \<and> over25_model (mon_predictor (ex_monitor (1 / 2))) = Some (\<lambda>features. 1 / 2)
   \<and> (1 / 2 :: real) < cfg_over25_min_probability (mon_config (ex_monitor (1 / 2)))
   \<and> \<not> prediction_exists 1
        (mon_db (process_match 100 ''Premier League'' ex_item (ex_monitor (1 / 2))))"
proof -
  let ?s = "ex_monitor (7 / 10)"
  let ?r = "ex_monitor (1 / 2)"
  have acc: "snd (predict_match ?s ex_item ''Premier League'') = Inr (Some ex_accepted)"
    using ex_predict_match_model [of ?s "7 / 10"]
    by (simp add: ex_monitor_def ex_config_def ex_accepted_def)
  have reach: "reaches_scoring 100 ''Premier League'' ex_item (mon_db ?s) 1 ex_features"
    "reaches_scoring 100 ''Premier League'' ex_item (mon_db ?r) 1 ex_features"
    by (rule ex_reaches_scoring; simp add: ex_monitor_def prediction_exists_def init_db_def)+
  have model: "over25_model (mon_predictor ?s) = Some (\<lambda>features. 7 / 10)"
    "over25_model (mon_predictor ?r) = Some (\<lambda>features. 1 / 2)"
    and high: "\<not> (7 / 10 :: real) < cfg_over25_min_probability (mon_config ?s)"
    and low: "(1 / 2 :: real) < cfg_over25_min_probability (mon_config ?r)"
    by (simp_all add: ex_monitor_def ex_config_def)
  note inst = btts_min_never_compared
    [where b = 2 and self = ?s and it = ex_item and league = "''Premier League''"
       and inputs = "[Cycle ex_cycle, Cycle ex_cycle]" and p = ex_accepted and now = 100
       and fid = 1 and fs = ex_features and m = "\<lambda>features. 7 / 10"]
  note inst2 = btts_min_never_compared
    [where self = ?r and it = ex_item and league = "''Premier League''" and now = 100
       and fid = 1 and fs = ex_features and m = "\<lambda>features. 1 / 2"]
  from inst acc
  have le: "cfg_over25_min_probability (mon_config ?s) \<le> p_over25_prob ex_accepted"
    by blast
  from inst
  have "mon_db (monitor_loop [Cycle ex_cycle, Cycle ex_cycle] (set_btts_min 2 ?s))
      = mon_db (monitor_loop [Cycle ex_cycle, Cycle ex_cycle] ?s)"
    by blast
  then have db: "mon_db (monitor_loop [Cycle ex_cycle, Cycle ex_cycle] (set_btts_min 2 ?s))
      = save_prediction 100 ex_accepted (init_db None)"
    unfolding ex_two_cycles by simp
  from inst reach(1) model(1) high
  have saved: "prediction_exists 1 (mon_db (process_match 100 ''Premier League'' ex_item ?s))"
    by blast
  from inst2 reach(2) model(2) low
  have rejected: "\<not> prediction_exists 1 (mon_db (process_match 100 ''Premier League'' ex_item ?r))"
    by blast
  from acc le db reach model high low saved rejected show ?thesis by blast
qed

end
